theory Spec2Isabelle
  imports Main "HOL-Library.AList"
begin

section \<open>Word Duel: rooms, games and guesses\<close>

text \<open>
  A shallow embedding of the room manager (\<^verbatim>\<open>utils/roomManager.js\<close>), the word validator
  that shares its file, the socket game handler (\<^verbatim>\<open>socket/gameHandler.js\<close>) and the
  \<^verbatim>\<open>submit-guess\<close> handler of the single-file server (\<^verbatim>\<open>server/index.js\<close>).

  Conventions of the model:
  \<^item> a JavaScript object with fields is a record, the string-valued \<open>status\<close> and \<open>mode\<close>
    fields are datatypes (the request validation admits only the two mode strings);
  \<^item> the \<open>Map\<close> of rooms is an association list in insertion order with one entry per key;
    \<open>rooms.get\<close> is \<open>map_of\<close>, \<open>rooms.set\<close> is \<open>AList.update\<close>, \<open>rooms.delete\<close> is
    \<open>AList.delete\<close>;
  \<^item> room objects are shared and mutated in place by the source; the model writes the
    changed room back under its code;
  \<^item> a \<open>throw\<close> is a result \<open>Inl e\<close> returned together with the store as it is at that point;
  \<^item> \<open>new Date()\<close> is a parameter \<open>now\<close> (milliseconds), read once per operation, and the
    result of \<open>Math.floor(Math.random() * n)\<close> is a parameter \<open>rnd\<close>;
  \<^item> a string is a list of 8-bit characters, read as the code units U+0000 to U+00FF; strings
    with higher code units are outside the model;
  \<^item> \<open>logger.logGameEvent\<close>, \<open>logRoomEvent\<close> and \<open>info\<close> have no effect on the state and are left
    out (\<open>logger.logError\<close> is not: see the handlers), and so is the \<open>settings\<close> object of a
    room, which repeats the configuration. The \<open>id\<close> of a player is the field \<open>pid\<close>.
\<close>

subsection \<open>Configuration (config.js)\<close>

definition MAX_GUESSES :: nat where
  "MAX_GUESSES = 6"

definition WORD_LENGTH :: nat where
  "WORD_LENGTH = 5"

definition DUEL_MAX_PLAYERS :: nat where
  "DUEL_MAX_PLAYERS = 2"

definition BATTLE_ROYALE_MAX_PLAYERS :: nat where
  "BATTLE_ROYALE_MAX_PLAYERS = 8"

subsection \<open>Data model\<close>

datatype mode = Duel | BattleRoyale

datatype status = Waiting | Playing | Finished

record guess_entry =
  word :: string
  attempt :: int
  timestamp :: "int option"

record player =
  pid :: string
  username :: string
  score :: int
  eliminated :: bool
  guesses :: "guess_entry list"
  won :: bool
  joinedAt :: int

record room =
  code :: string
  hostId :: string
  players :: "player list"
  solutionWord :: string
  status :: status
  mode :: mode
  maxPlayers :: nat
  gameStartTime :: "int option"
  roundNumber :: nat
  createdAt :: int
  lastActivity :: int

type_synonym store = "(string \<times> room) list"

datatype error =
    RoomNotFound
  | GameAlreadyInProgress
  | RoomFull nat
  | UsernameTaken
  | NeedTwoPlayers
  | PlayerNotFoundOrEliminated
  | BadGuessFormat

subsection \<open>Strings: trim, toUpperCase and the two regular expressions\<close>

text \<open>The white space and line terminators that \<^verbatim>\<open>String.prototype.trim\<close> strips, as far as
  they are 8-bit code units: tab, line feed, vertical tab, form feed, carriage return, space
  and the no-break space U+00A0.\<close>

definition is_space :: "char \<Rightarrow> bool" where
  "is_space c =
     (c \<in> set [CHR '' '', CHR 0x09, CHR 0x0A, CHR 0x0B, CHR 0x0C, CHR 0x0D, CHR 0xA0])"

definition trim :: "string \<Rightarrow> string" where
  "trim s = rev (dropWhile is_space (rev (dropWhile is_space s)))"

definition lower_letters :: string where
  "lower_letters = ''abcdefghijklmnopqrstuvwxyz''"

definition upper_letters :: string where
  "upper_letters = ''ABCDEFGHIJKLMNOPQRSTUVWXYZ''"

text \<open>\<^verbatim>\<open>String.prototype.toUpperCase\<close> on 8-bit code units: the letters a to z and the
  Latin-1 letters U+00E0 to U+00FE (without the division sign U+00F7) have their capital 32
  places below, and the sharp s U+00DF becomes SS. The capitals of U+00B5 and U+00FF lie
  above U+00FF and cannot be written in the model, which leaves these two as they are.\<close>

definition upper_char :: "char \<Rightarrow> string" where
  "upper_char c =
     (let k = (of_char c :: nat) in
      if (97 \<le> k \<and> k \<le> 122) \<or> (224 \<le> k \<and> k \<le> 254 \<and> k \<noteq> 247) then [char_of (k - 32)]
      else if k = 223 then ''SS''
      else [c])"

definition toUpperCase :: "string \<Rightarrow> string" where
  "toUpperCase s = concat (map upper_char s)"

text \<open>\<^verbatim>\<open>/^[A-Z]+$/.test(s)\<close>\<close>

definition all_upper :: "string \<Rightarrow> bool" where
  "all_upper s = (s \<noteq> [] \<and> list_all (\<lambda>c. c \<in> set upper_letters) s)"

text \<open>\<^verbatim>\<open>/^[a-zA-Z]+$/.test(s)\<close>\<close>

definition all_letters :: "string \<Rightarrow> bool" where
  "all_letters s = (s \<noteq> [] \<and> list_all (\<lambda>c. c \<in> set lower_letters \<or> c \<in> set upper_letters) s)"

subsection \<open>Array helpers\<close>

text \<open>\<^verbatim>\<open>Array.prototype.findIndex\<close>, with \<open>None\<close> for \<open>-1\<close>.\<close>

fun findIndex :: "('a \<Rightarrow> bool) \<Rightarrow> 'a list \<Rightarrow> nat option" where
  "findIndex P [] = None"
| "findIndex P (x # xs) =
     (if P x then Some 0 else (case findIndex P xs of None \<Rightarrow> None | Some i \<Rightarrow> Some (Suc i)))"

text \<open>\<^verbatim>\<open>xs.splice(i, 1)\<close>: the array without its element at index \<open>i\<close>.\<close>

definition splice1 :: "nat \<Rightarrow> 'a list \<Rightarrow> 'a list" where
  "splice1 i xs = take i xs @ drop (Suc i) xs"

subsection \<open>RoomManager (utils/roomManager.js)\<close>

definition getRoom :: "string \<Rightarrow> store \<Rightarrow> room option" where
  "getRoom c rooms = map_of rooms c"

definition roomExists :: "string \<Rightarrow> store \<Rightarrow> bool" where
  "roomExists c rooms = (map_of rooms c \<noteq> None)"

definition deleteRoom :: "string \<Rightarrow> store \<Rightarrow> store" where
  "deleteRoom c rooms = AList.delete c rooms"

definition new_player :: "int \<Rightarrow> string \<Rightarrow> player" where
  "new_player now u =
     \<lparr>pid = u, username = u, score = 0, eliminated = False, guesses = [], won = False,
      joinedAt = now\<rparr>"

text \<open>\<open>c\<close> is the code that \<open>generateRoomCode\<close> returned: a code that no room of the store
  has. The random search for it is not part of the model.\<close>

definition createRoom :: "int \<Rightarrow> string \<Rightarrow> string \<Rightarrow> mode \<Rightarrow> store \<Rightarrow> room \<times> store" where
  "createRoom now c u m rooms =
     (let room = \<lparr>code = c, hostId = u, players = [new_player now u], solutionWord = [],
                   status = Waiting, mode = m,
                   maxPlayers = (if m = Duel then DUEL_MAX_PLAYERS else BATTLE_ROYALE_MAX_PLAYERS),
                   gameStartTime = None, roundNumber = 1, createdAt = now, lastActivity = now\<rparr>
      in (room, AList.update c room rooms))"

definition addPlayerToRoom :: "int \<Rightarrow> string \<Rightarrow> string \<Rightarrow> store \<Rightarrow> (error + room) \<times> store" where
  "addPlayerToRoom now c u rooms =
     (case map_of rooms c of
        None \<Rightarrow> (Inl RoomNotFound, rooms)
      | Some room \<Rightarrow>
          if status room \<noteq> Waiting then (Inl GameAlreadyInProgress, rooms)
          else if length (players room) \<ge> maxPlayers room
            then (Inl (RoomFull (maxPlayers room)), rooms)
          else if list_ex (\<lambda>p. username p = u) (players room) then (Inl UsernameTaken, rooms)
          else
            let room' = room\<lparr>players := players room @ [new_player now u], lastActivity := now\<rparr>
            in (Inr room', AList.update c room' rooms))"

definition removePlayerFromRoom :: "int \<Rightarrow> string \<Rightarrow> string \<Rightarrow> store \<Rightarrow> bool \<times> store" where
  "removePlayerFromRoom now c u rooms =
     (case map_of rooms c of
        None \<Rightarrow> (False, rooms)
      | Some room \<Rightarrow>
          (case findIndex (\<lambda>p. username p = u) (players room) of
             None \<Rightarrow> (False, rooms)
           | Some playerIndex \<Rightarrow>
               (case splice1 playerIndex (players room) of
                  [] \<Rightarrow> (True, deleteRoom c rooms)
                | p0 # ps \<Rightarrow>
                    let room1 = room\<lparr>players := p0 # ps, lastActivity := now\<rparr>;
                        room2 = (if hostId room1 = u then room1\<lparr>hostId := username p0\<rparr>
                                 else room1)
                    in (True, AList.update c room2 rooms))))"

definition fallbackWords :: "string list" where
  "fallbackWords = [''HELLO'', ''WORLD'', ''GAMES'', ''PLAYS'', ''SMART'']"

text \<open>\<open>rnd\<close> stands for the integer draw; reducing it modulo the length keeps the index in
  the range that \<^verbatim>\<open>Math.floor(Math.random() * fallbackWords.length)\<close> has.\<close>

definition getRandomWord :: "nat \<Rightarrow> string" where
  "getRandomWord rnd = fallbackWords ! (rnd mod length fallbackWords)"

text \<open>\<^verbatim>\<open>customWord && customWord.trim()\<close>: a string that is not empty after trimming.\<close>

definition custom_given :: "string option \<Rightarrow> bool" where
  "custom_given customWord = (case customWord of None \<Rightarrow> False | Some w \<Rightarrow> w \<noteq> [] \<and> trim w \<noteq> [])"

definition reset_player :: "player \<Rightarrow> player" where
  "reset_player p = p\<lparr>eliminated := False, guesses := [], won := False, score := 0\<rparr>"

definition startGame ::
  "int \<Rightarrow> nat \<Rightarrow> string \<Rightarrow> string option \<Rightarrow> store \<Rightarrow> (error + room) \<times> store" where
  "startGame now rnd c customWord rooms =
     (case map_of rooms c of
        None \<Rightarrow> (Inl RoomNotFound, rooms)
      | Some room \<Rightarrow>
          if status room \<noteq> Waiting then (Inl GameAlreadyInProgress, rooms)
          else if length (players room) < 2 then (Inl NeedTwoPlayers, rooms)
          else
            let room' = room\<lparr>
                  solutionWord :=
                    (if custom_given customWord then toUpperCase (trim (the customWord))
                     else getRandomWord rnd),
                  players := map reset_player (players room),
                  status := Playing,
                  gameStartTime := Some now,
                  roundNumber := 1,
                  lastActivity := now\<rparr>
            in (Inr room', AList.update c room' rooms))"

datatype outcome = Won | Eliminated | Continue

definition submitGuess ::
  "int \<Rightarrow> string \<Rightarrow> string \<Rightarrow> string \<Rightarrow> int \<Rightarrow> store
     \<Rightarrow> (error + outcome \<times> player \<times> room) \<times> store" where
  "submitGuess now c u guess attemptNumber rooms =
     (case map_of rooms c of
        None \<Rightarrow> (Inl RoomNotFound, rooms)
      | Some room \<Rightarrow>
          (case findIndex (\<lambda>p. username p = u) (players room) of
             None \<Rightarrow> (Inl PlayerNotFoundOrEliminated, rooms)
           | Some i \<Rightarrow>
               let player = players room ! i in
               if eliminated player then (Inl PlayerNotFoundOrEliminated, rooms)
               else if length guess \<noteq> WORD_LENGTH \<or> \<not> all_upper guess
                 then (Inl BadGuessFormat, rooms)
               else
                 let player1 = player\<lparr>guesses := guesses player @
                       [\<lparr>word = guess, attempt = attemptNumber, timestamp = Some now\<rparr>]\<rparr> in
                 if guess = solutionWord room then
                   let player2 = player1\<lparr>won := True, score := attemptNumber\<rparr>;
                       room' = room\<lparr>players := (players room)[i := player2]\<rparr>
                   in (Inr (Won, player2, room'), AList.update c room' rooms)
                 else if length (guesses player1) \<ge> MAX_GUESSES then
                   let player2 = player1\<lparr>eliminated := True\<rparr>;
                       room' = room\<lparr>players := (players room)[i := player2]\<rparr>
                   in (Inr (Eliminated, player2, room'), AList.update c room' rooms)
                 else
                   let room' = room\<lparr>players := (players room)[i := player1]\<rparr>
                   in (Inr (Continue, player1, room'), AList.update c room' rooms)))"

text \<open>The sweep visits the entries of the map in order and deletes the entry it is on; the
  entries still to be visited are not affected by that, so the loop runs over the list of
  entries taken at the start.\<close>

fun cleanup_loop :: "int \<Rightarrow> int \<Rightarrow> (string \<times> room) list \<Rightarrow> store \<Rightarrow> store" where
  "cleanup_loop now maxAge [] rooms = rooms"
| "cleanup_loop now maxAge ((c, room) # entries) rooms =
     (if now - createdAt room > maxAge
      then cleanup_loop now maxAge entries (deleteRoom c rooms)
      else cleanup_loop now maxAge entries rooms)"

text \<open>\<open>MAX_ROOM_AGE_HOURS\<close> comes from the environment and is a parameter.\<close>

definition cleanupOldRooms :: "int \<Rightarrow> int \<Rightarrow> store \<Rightarrow> store" where
  "cleanupOldRooms now MAX_ROOM_AGE_HOURS rooms =
     cleanup_loop now (MAX_ROOM_AGE_HOURS * 60 * 60 * 1000) rooms rooms"

subsection \<open>WordValidator (second module of utils/roomManager.js)\<close>

text \<open>The dictionary \<open>words\<close> is read from a file at start-up and is a parameter.\<close>

definition isValidWord :: "string list \<Rightarrow> string \<Rightarrow> bool" where
  "isValidWord words w =
     (if w = [] then False
      else
        let normalizedWord = toUpperCase (trim w) in
        if length normalizedWord \<noteq> WORD_LENGTH then False
        else normalizedWord \<in> set words)"

definition isValidWordFormat :: "string \<Rightarrow> bool" where
  "isValidWordFormat w =
     (if w = [] then False
      else
        let normalizedWord = trim w in
        if length normalizedWord \<noteq> WORD_LENGTH then False
        else if \<not> all_letters normalizedWord then False
        else True)"

subsection \<open>GameHandler (socket/gameHandler.js)\<close>

text \<open>
  What a handler emits. \<open>GameError\<close> is the private reply to the sender; the others go to
  the whole room. The snapshots of the room that the payloads carry besides (players, mode,
  status) repeat the state the handler returns and are left out. \<open>GuessSubmitted\<close> carries
  the username, the guess, the length of the player's guess list and the two outcome flags
  (\<open>False\<close> where the source sends \<open>undefined\<close>).
\<close>

datatype event =
    GameError string
  | GameStarted string
  | GameOver "string option" string
  | PlayerEliminated string nat
  | GuessSubmitted string string nat bool bool
  | UncaughtTypeError

text \<open>
  The \<open>catch\<close> block of a handler calls \<^verbatim>\<open>logger.logError(error, {roomCode, ...})\<close> before it
  emits its error message. \<open>logError\<close> takes its second argument for a request and calls
  \<open>req.get\<close> on it; the handlers pass a plain object, which has no \<open>get\<close>, so the call throws
  a \<open>TypeError\<close>. The message \<open>msg\<close> that follows in the block is never emitted and the
  exception leaves the handler. \<open>UncaughtTypeError\<close> stands for that exit; it is not an
  emission.
\<close>

definition catch_block :: "string \<Rightarrow> event list" where
  "catch_block msg = [UncaughtTypeError]"

definition handleStartGame ::
  "string list \<Rightarrow> int \<Rightarrow> nat \<Rightarrow> string \<Rightarrow> string option \<Rightarrow> store \<Rightarrow> event list \<times> store" where
  "handleStartGame words now rnd roomCode customWord rooms =
     (case map_of rooms roomCode of
        None \<Rightarrow> ([GameError ''Room not found''], rooms)
      | Some room \<Rightarrow>
          if mode room = Duel \<and> length (players room) < 2
            then ([GameError ''Duel mode requires at least 2 players''], rooms)
          else if mode room = BattleRoyale \<and> length (players room) < 2
            then ([GameError ''Battle Royale mode requires at least 2 players''], rooms)
          else if custom_given customWord
                  \<and> \<not> isValidWord words (toUpperCase (trim (the customWord)))
            then ([GameError ''Invalid word. Please choose a valid 5-letter word.''], rooms)
          else
            (case startGame now rnd roomCode customWord rooms of
               (Inl e, rooms') \<Rightarrow> (catch_block ''Failed to start game'', rooms')
             | (Inr updatedRoom, rooms') \<Rightarrow> ([GameStarted (solutionWord updatedRoom)], rooms')))"

text \<open>The part of \<open>handleSubmitGuess\<close> after the room manager has recorded the guess: the
  end-of-game policy of the two modes, on the room as the manager left it.\<close>

definition last_standing :: "string \<Rightarrow> room \<Rightarrow> event list \<times> room" where
  "last_standing u room =
     (let activePlayers = filter (\<lambda>p. \<not> eliminated p) (players room) in
      if length activePlayers = 1 then
        let winner = activePlayers ! 0;
            room1 = room\<lparr>status := Finished\<rparr>
        in ([GameOver (Some (username winner)) (solutionWord room1)], room1)
      else ([PlayerEliminated u (length activePlayers)], room))"

definition resolve_guess :: "string \<Rightarrow> outcome \<Rightarrow> room \<Rightarrow> event list \<times> room" where
  "resolve_guess u result room =
     (case result of
        Won \<Rightarrow>
          if mode room = Duel then
            let room1 = room\<lparr>status := Finished\<rparr>
            in ([GameOver (Some u) (solutionWord room1)], room1)
          else last_standing u room
      | Eliminated \<Rightarrow>
          if mode room = Duel then
            (case find (\<lambda>p. username p \<noteq> u) (players room) of
               None \<Rightarrow> ([], room)
             | Some otherPlayer \<Rightarrow>
                 if length (guesses otherPlayer) \<ge> MAX_GUESSES then
                   let room1 = room\<lparr>status := Finished\<rparr>
                   in ([GameOver None (solutionWord room1)], room1)
                 else ([], room))
          else last_standing u room
      | Continue \<Rightarrow> ([], room))"

definition handleSubmitGuess ::
  "int \<Rightarrow> string \<Rightarrow> string \<Rightarrow> string \<Rightarrow> int \<Rightarrow> store \<Rightarrow> event list \<times> store" where
  "handleSubmitGuess now roomCode u guess attemptNumber rooms =
     (case map_of rooms roomCode of
        None \<Rightarrow> ([GameError ''Room not found''], rooms)
      | Some room \<Rightarrow>
          (case find (\<lambda>p. username p = u) (players room) of
             None \<Rightarrow> ([], rooms)
           | Some player \<Rightarrow>
               if eliminated player then ([], rooms)
               else if \<not> isValidWordFormat guess
                 then ([GameError ''Invalid guess format''], rooms)
               else
                 (case submitGuess now roomCode u guess attemptNumber rooms of
                    (Inl e, rooms') \<Rightarrow> (catch_block ''Failed to submit guess'', rooms')
                  | (Inr (result, player', room'), rooms') \<Rightarrow>
                      let (events, room'') = resolve_guess u result room'
                      in (events @
                            [GuessSubmitted u guess (length (guesses player'))
                               (result = Won) (result = Eliminated)],
                          AList.update roomCode room'' rooms'))))"

subsection \<open>The submit-guess handler of the single-file server (server/index.js)\<close>

text \<open>This older copy keeps the whole logic in one handler; its guess entries carry no
  timestamp, and it also sets \<open>won\<close> on the last player standing.\<close>

definition legacy_last_standing :: "string \<Rightarrow> room \<Rightarrow> event list \<times> room" where
  "legacy_last_standing u room =
     (let activePlayers = filter (\<lambda>p. \<not> eliminated p) (players room) in
      if length activePlayers = 1 then
        (case findIndex (\<lambda>p. \<not> eliminated p) (players room) of
           None \<Rightarrow> ([], room)
         | Some j \<Rightarrow>
             let winner = (players room ! j)\<lparr>won := True\<rparr>;
                 room1 = room\<lparr>players := (players room)[j := winner], status := Finished\<rparr>
             in ([GameOver (Some (username winner)) (solutionWord room1)], room1))
      else ([PlayerEliminated u (length activePlayers)], room))"

definition legacy_submit_guess ::
  "string \<Rightarrow> string \<Rightarrow> string \<Rightarrow> int \<Rightarrow> store \<Rightarrow> event list \<times> store" where
  "legacy_submit_guess roomCode u guess attemptNumber rooms =
     (case map_of rooms roomCode of
        None \<Rightarrow> ([], rooms)
      | Some room \<Rightarrow>
          (case findIndex (\<lambda>p. username p = u) (players room) of
             None \<Rightarrow> ([], rooms)
           | Some i \<Rightarrow>
               let player = players room ! i in
               if eliminated player then ([], rooms)
               else if length guess = 5 \<and> all_upper guess then
                 let player1 = player\<lparr>guesses := guesses player @
                       [\<lparr>word = guess, attempt = attemptNumber, timestamp = None\<rparr>]\<rparr>;
                     (events, room') =
                       (if guess = solutionWord room then
                          let player2 = player1\<lparr>won := True, score := attemptNumber\<rparr> in
                          if mode room = Duel then
                            let room1 = room\<lparr>players := (players room)[i := player2],
                                             status := Finished\<rparr>
                            in ([GameOver (Some u) (solutionWord room1)], room1)
                          else
                            legacy_last_standing u
                              (room\<lparr>players := (players room)[i := player2\<lparr>eliminated := True\<rparr>]\<rparr>)
                        else if length (guesses player1) \<ge> 6 then
                          if mode room = Duel then
                            let room1 = room\<lparr>players := (players room)[i := player1]\<rparr> in
                            (case find (\<lambda>p. username p \<noteq> u) (players room1) of
                               None \<Rightarrow> ([], room1)
                             | Some otherPlayer \<Rightarrow>
                                 if length (guesses otherPlayer) \<ge> 6 then
                                   let room2 = room1\<lparr>status := Finished\<rparr>
                                   in ([GameOver None (solutionWord room2)], room2)
                                 else ([], room1))
                          else
                            legacy_last_standing u
                              (room\<lparr>players := (players room)[i := player1\<lparr>eliminated := True\<rparr>]\<rparr>)
                        else ([], room\<lparr>players := (players room)[i := player1]\<rparr>))
                 in (events @ [GuessSubmitted u guess (length (guesses player1)) False False],
                     AList.update roomCode room' rooms)
               else ([], rooms)))"

subsection \<open>Observations and example states\<close>

text \<open>What a client can see of a room: its status, and per player the name, the number of
  guesses made and the \<open>won\<close> and \<open>eliminated\<close> flags.\<close>

definition room_status :: "string \<Rightarrow> store \<Rightarrow> status option" where
  "room_status c rooms = map_option status (getRoom c rooms)"

definition player_flags :: "string \<Rightarrow> store \<Rightarrow> (string \<times> nat \<times> bool \<times> bool) list" where
  "player_flags c rooms =
     (case getRoom c rooms of
        None \<Rightarrow> []
      | Some room \<Rightarrow>
          map (\<lambda>p. (username p, length (guesses p), won p, eliminated p)) (players room))"

text \<open>The room stored under a code; used only where there is one.\<close>

definition room_of :: "string \<Rightarrow> store \<Rightarrow> room" where
  "room_of c rooms = the (getRoom c rooms)"

text \<open>A run of guesses through the game handler, and through the single-file server.\<close>

fun play :: "string \<Rightarrow> (string \<times> string \<times> int) list \<Rightarrow> store \<Rightarrow> store" where
  "play c [] rooms = rooms"
| "play c ((u, guess, n) # moves) rooms = play c moves (snd (handleSubmitGuess 10 c u guess n rooms))"

fun legacy_play :: "string \<Rightarrow> (string \<times> string \<times> int) list \<Rightarrow> store \<Rightarrow> store" where
  "legacy_play c [] rooms = rooms"
| "legacy_play c ((u, guess, n) # moves) rooms =
     legacy_play c moves (snd (legacy_submit_guess c u guess n rooms))"

text \<open>A duel room with alice and bob, before and after the start (the draw \<open>0\<close> gives the
  solution HELLO), and a battle royale room with alice, bob and carol.\<close>

definition lobby_duel :: store where
  "lobby_duel =
     snd (addPlayerToRoom 1 ''ABC123'' ''bob'' (snd (createRoom 0 ''ABC123'' ''alice'' Duel [])))"

definition game_duel :: store where
  "game_duel = snd (startGame 2 0 ''ABC123'' None lobby_duel)"

definition lobby_royale :: store where
  "lobby_royale =
     snd (addPlayerToRoom 2 ''XYZ789'' ''carol''
       (snd (addPlayerToRoom 1 ''XYZ789'' ''bob''
         (snd (createRoom 0 ''XYZ789'' ''alice'' BattleRoyale [])))))"

definition game_royale :: store where
  "game_royale = snd (startGame 3 0 ''XYZ789'' None lobby_royale)"

text \<open>The duel after alice has guessed the solution.\<close>

definition duel_won :: store where
  "duel_won = play ''ABC123'' [(''alice'', ''HELLO'', 3)] game_duel"

text \<open>The duel after five wrong guesses of alice, without and with six wrong guesses of bob.\<close>

definition five_wrong :: "string \<Rightarrow> (string \<times> string \<times> int) list" where
  "five_wrong u = map (\<lambda>n. (u, ''WORLD'', n)) [1, 2, 3, 4, 5]"

definition duel_alice_five :: store where
  "duel_alice_five = play ''ABC123'' (five_wrong ''alice'') game_duel"

definition duel_bob_out :: store where
  "duel_bob_out = play ''ABC123'' (five_wrong ''bob'' @ [(''bob'', ''WORLD'', 6)]) duel_alice_five"

text \<open>The waiting duel room after alice has sent six guesses all the same: the handler
  records guesses whatever the status, so she has six guesses and is eliminated before the
  game has started.\<close>

definition lobby_stale :: store where
  "lobby_stale = play ''ABC123'' (five_wrong ''alice'' @ [(''alice'', ''WORLD'', 6)]) lobby_duel"

text \<open>Alice guesses the solution of the battle royale game, through the room manager alone.\<close>

definition royale_win :: "(error + outcome \<times> player \<times> room) \<times> store" where
  "royale_win = submitGuess 99 ''XYZ789'' ''alice'' ''HELLO'' 3 game_royale"

text \<open>Three rooms created at different times, for the sweep.\<close>

definition three_rooms :: store where
  "three_rooms =
     snd (createRoom 50000000 ''NEW003'' ''carol'' Duel
       (snd (createRoom 13600000 ''MID002'' ''bob'' BattleRoyale
         (snd (createRoom 0 ''OLD001'' ''alice'' Duel [])))))"

section \<open>Properties\<close>

subsection \<open>The store, and the array helpers\<close>

lemma map_of_update_same: "map_of (AList.update k v al) k = Some v"
  by (simp add: update_conv')

lemma map_of_update_other: "k' \<noteq> k \<Longrightarrow> map_of (AList.update k v al) k' = map_of al k'"
  by (simp add: update_conv')

lemma map_of_deleteRoom: "map_of (deleteRoom k al) = (map_of al)(k := None)"
  by (simp add: deleteRoom_def delete_conv')

lemma findIndex_Some:
  "findIndex P xs = Some i \<Longrightarrow> i < length xs \<and> P (xs ! i) \<and> (\<forall>j<i. \<not> P (xs ! j))"
proof (induction xs arbitrary: i)
  case Nil
  then show ?case by simp
next
  case (Cons x xs)
  show ?case
  proof (cases "P x")
    case True
    with Cons.prems show ?thesis by simp
  next
    case False
    with Cons.prems obtain k where k: "findIndex P xs = Some k" "i = Suc k"
      by (auto split: option.splits)
    from Cons.IH[OF k(1)] False k(2) show ?thesis
      by (auto simp: nth_Cons split: nat.splits)
  qed
qed

lemma findIndex_None: "findIndex P xs = None \<longleftrightarrow> (\<forall>x\<in>set xs. \<not> P x)"
  by (induction xs) (auto split: option.splits)

lemma findIndex_ex: "(\<exists>x\<in>set xs. P x) \<Longrightarrow> \<exists>i. findIndex P xs = Some i"
  using findIndex_None[of P xs] by (cases "findIndex P xs") auto

lemma find_findIndex: "find P xs = map_option (\<lambda>i. xs ! i) (findIndex P xs)"
  by (induction xs) (auto split: option.splits)

lemma find_update_irrelevant:
  "i < length xs \<Longrightarrow> \<not> P (xs ! i) \<Longrightarrow> \<not> P y \<Longrightarrow> find P (xs[i := y]) = find P xs"
proof (induction xs arbitrary: i)
  case Nil
  then show ?case by simp
next
  case (Cons x xs)
  then show ?case by (cases i) auto
qed

lemma splice1_distinct:
  "distinct (map f xs) \<Longrightarrow> findIndex (\<lambda>x. f x = a) xs = Some i \<Longrightarrow>
   splice1 i xs = filter (\<lambda>x. f x \<noteq> a) xs"
proof (induction xs arbitrary: i)
  case Nil
  then show ?case by simp
next
  case (Cons x xs)
  show ?case
  proof (cases "f x = a")
    case True
    with Cons.prems have "i = 0" by simp
    moreover from True Cons.prems(1) have "\<forall>y\<in>set xs. f y \<noteq> a"
      by (metis distinct.simps(2) imageI list.simps(9) set_map)
    ultimately show ?thesis using True by (simp add: splice1_def)
  next
    case False
    with Cons.prems obtain k where k: "findIndex (\<lambda>x. f x = a) xs = Some k" "i = Suc k"
      by (auto split: option.splits)
    from Cons.prems(1) have "distinct (map f xs)" by simp
    from Cons.IH[OF this k(1)] False k(2) show ?thesis by (simp add: splice1_def)
  qed
qed

subsection \<open>The sweep as a filter\<close>

lemma cleanup_loop_filter:
  "cleanup_loop now m es rooms =
     filter (\<lambda>(k, v). \<not> (\<exists>r. (k, r) \<in> set es \<and> now - createdAt r > m)) rooms"
proof (induction es arbitrary: rooms)
  case Nil
  then show ?case by simp
next
  case (Cons e es)
  obtain c room where e: "e = (c, room)" by (cases e)
  show ?case
  proof (cases "now - createdAt room > m")
    case True
    have "cleanup_loop now m (e # es) rooms =
            filter (\<lambda>(k, v). \<not> (\<exists>r. (k, r) \<in> set es \<and> now - createdAt r > m))
              (filter (\<lambda>(k, v). c \<noteq> k) rooms)"
      using True by (simp add: e Cons.IH deleteRoom_def AList.delete_eq)
    also have "\<dots> = filter (\<lambda>(k, v). \<not> (\<exists>r. (k, r) \<in> set (e # es) \<and> now - createdAt r > m)) rooms"
      unfolding filter_filter
    proof (rule filter_cong[OF refl])
      fix x assume "x \<in> set rooms"
      obtain k v where x: "x = (k, v)" by (cases x)
      show "((case x of (k, v) \<Rightarrow> c \<noteq> k) \<and>
             (case x of (k, v) \<Rightarrow> \<not> (\<exists>r. (k, r) \<in> set es \<and> now - createdAt r > m)))
          = (case x of (k, v) \<Rightarrow> \<not> (\<exists>r. (k, r) \<in> set (e # es) \<and> now - createdAt r > m))"
        unfolding x e using True by auto
    qed
    finally show ?thesis .
  next
    case False
    have "cleanup_loop now m (e # es) rooms =
            filter (\<lambda>(k, v). \<not> (\<exists>r. (k, r) \<in> set es \<and> now - createdAt r > m)) rooms"
      using False by (simp add: e Cons.IH)
    also have "\<dots> = filter (\<lambda>(k, v). \<not> (\<exists>r. (k, r) \<in> set (e # es) \<and> now - createdAt r > m)) rooms"
    proof (rule filter_cong[OF refl])
      fix x assume "x \<in> set rooms"
      obtain k v where x: "x = (k, v)" by (cases x)
      show "(case x of (k, v) \<Rightarrow> \<not> (\<exists>r. (k, r) \<in> set es \<and> now - createdAt r > m))
          = (case x of (k, v) \<Rightarrow> \<not> (\<exists>r. (k, r) \<in> set (e # es) \<and> now - createdAt r > m))"
        unfolding x e using False by auto
    qed
    finally show ?thesis .
  qed
qed

lemma store_key_unique:
  "distinct (map fst rooms) \<Longrightarrow> (k, v) \<in> set rooms \<Longrightarrow> (k, r) \<in> set rooms \<Longrightarrow> r = v"
  by (rule eq_key_imp_eq_value)

subsection \<open>What a recorded guess changes\<close>

lemma submitGuess_InrE:
  assumes "submitGuess now c u guess n rooms = (Inr (result, player', room'), rooms')"
  obtains room i where "map_of rooms c = Some room"
    and "findIndex (\<lambda>p. username p = u) (players room) = Some i"
    and "\<not> eliminated (players room ! i)"
    and "length guess = WORD_LENGTH" and "all_upper guess"
proof -
  from assms obtain room where r: "map_of rooms c = Some room"
    by (cases "map_of rooms c") (auto simp: submitGuess_def)
  from assms r obtain i where i: "findIndex (\<lambda>p. username p = u) (players room) = Some i"
    by (cases "findIndex (\<lambda>p. username p = u) (players room)") (auto simp: submitGuess_def)
  from assms r i have e: "\<not> eliminated (players room ! i)"
    by (auto simp: submitGuess_def Let_def split: if_splits)
  from assms r i e have "length guess = WORD_LENGTH \<and> all_upper guess"
    by (auto simp: submitGuess_def Let_def split: if_splits)
  with r i e that show thesis by blast
qed

lemma eliminated_update_same: "eliminated q = b \<Longrightarrow> q\<lparr>eliminated := b\<rparr> = q"
  by (cases q) simp

lemma submitGuess_wellformed:
  assumes "map_of rooms c = Some room"
    and "findIndex (\<lambda>p. username p = u) (players room) = Some i"
    and "\<not> eliminated (players room ! i)"
    and "length guess = WORD_LENGTH" and "all_upper guess"
  shows "submitGuess now c u guess n rooms =
     (let result = (if guess = solutionWord room then Won
                    else if MAX_GUESSES \<le> length (guesses (players room ! i)) + 1 then Eliminated
                    else Continue);
          player' = (players room ! i)\<lparr>
             guesses := guesses (players room ! i) @
                [\<lparr>word = guess, attempt = n, timestamp = Some now\<rparr>],
             won := (if result = Won then True else won (players room ! i)),
             score := (if result = Won then n else score (players room ! i)),
             eliminated := (result = Eliminated)\<rparr>;
          room' = room\<lparr>players := (players room)[i := player']\<rparr>
      in (Inr (result, player', room'), AList.update c room' rooms))"
  using assms by (simp add: submitGuess_def Let_def eliminated_update_same)

subsection \<open>Starting a game\<close>

lemma getRandomWord_fallback: "getRandomWord rnd \<in> set fallbackWords"
  unfolding getRandomWord_def by (rule nth_mem) (simp add: fallbackWords_def)

lemma reset_player_fields:
  "guesses (reset_player p) = []" "\<not> eliminated (reset_player p)" "\<not> won (reset_player p)"
  "score (reset_player p) = 0" "username (reset_player p) = username p"
  by (simp_all add: reset_player_def)

subsection \<open>The handler on a well-formed guess\<close>

lemma upper_not_space: "c \<in> set upper_letters \<Longrightarrow> \<not> is_space c"
  by (auto simp: upper_letters_def is_space_def)

lemma dropWhile_id: "xs = [] \<or> \<not> P (hd xs) \<Longrightarrow> dropWhile P xs = xs"
  by (cases xs) auto

lemma trim_all_upper:
  assumes "all_upper g"
  shows "trim g = g"
proof -
  from assms have a: "\<forall>c\<in>set g. \<not> is_space c"
    by (auto simp: all_upper_def list_all_iff upper_not_space)
  then have "dropWhile is_space g = g"
    by (intro dropWhile_id) (cases g, auto)
  moreover from a have "dropWhile is_space (rev g) = rev g"
    by (intro dropWhile_id) (cases "rev g", auto simp: hd_rev last_in_set)
  ultimately show ?thesis by (simp add: trim_def)
qed

lemma isValidWordFormat_upper:
  assumes "length g = WORD_LENGTH" and "all_upper g"
  shows "isValidWordFormat g"
proof -
  from assms(2) have "all_letters g" by (auto simp: all_upper_def all_letters_def list_all_iff)
  moreover from assms(2) have "g \<noteq> []" by (simp add: all_upper_def)
  ultimately show ?thesis
    using assms by (simp add: isValidWordFormat_def trim_all_upper)
qed

lemma resolve_guess_players: "players (snd (resolve_guess u res room)) = players room"
  by (cases res)
     (auto simp: resolve_guess_def last_standing_def Let_def split: option.splits)

lemma resolve_guess_status:
  "status (snd (resolve_guess u res room)) = status room
   \<or> status (snd (resolve_guess u res room)) = Finished"
  by (cases res)
     (auto simp: resolve_guess_def last_standing_def Let_def split: option.splits)

lemma submitGuess_Inl: "fst (submitGuess now c u guess n rooms) = Inl e \<Longrightarrow>
  snd (submitGuess now c u guess n rooms) = rooms"
  by (auto simp: submitGuess_def Let_def split: option.splits if_splits)

lemma handleSubmitGuess_wellformed:
  assumes "map_of rooms c = Some room"
    and "findIndex (\<lambda>p. username p = u) (players room) = Some i"
    and "\<not> eliminated (players room ! i)"
    and "length guess = WORD_LENGTH" and "all_upper guess"
  shows "handleSubmitGuess now c u guess n rooms =
     (let result = (if guess = solutionWord room then Won
                    else if MAX_GUESSES \<le> length (guesses (players room ! i)) + 1 then Eliminated
                    else Continue);
          player' = (players room ! i)\<lparr>
             guesses := guesses (players room ! i) @
                [\<lparr>word = guess, attempt = n, timestamp = Some now\<rparr>],
             won := (if result = Won then True else won (players room ! i)),
             score := (if result = Won then n else score (players room ! i)),
             eliminated := (result = Eliminated)\<rparr>;
          room' = room\<lparr>players := (players room)[i := player']\<rparr>
      in (fst (resolve_guess u result room') @
            [GuessSubmitted u guess (Suc (length (guesses (players room ! i))))
               (result = Won) (result = Eliminated)],
          AList.update c (snd (resolve_guess u result room')) rooms))"
proof -
  have f: "find (\<lambda>p. username p = u) (players room) = Some (players room ! i)"
    using assms(2) by (simp add: find_findIndex)
  have v: "isValidWordFormat guess" using assms(4,5) by (rule isValidWordFormat_upper)
  show ?thesis
    unfolding handleSubmitGuess_def
    by (simp add: assms(1,3) f v submitGuess_wellformed[OF assms] Let_def split_beta)
qed

lemma submitGuess_Inl_store:
  "submitGuess now c u guess n rooms = (Inl e, rooms') \<Longrightarrow> rooms' = rooms"
  using submitGuess_Inl[of now c u guess n rooms e] by simp

section \<open>Room store\<close>

text \<open>
  C7 as stated gives each of the four errors its condition and no order among them. Read
  so, it does not hold: bob's name is taken in the waiting duel room of alice and bob, but
  the room is also full and the answer is \<open>RoomFull\<close>, not \<open>UsernameTaken\<close>; and the started duel
  is full, but the answer to a join is \<open>GameAlreadyInProgress\<close>, not \<open>RoomFull\<close>.
\<close>

theorem addPlayerToRoom_order_counterexample:
  "''bob'' \<in> set (map username (players (room_of ''ABC123'' lobby_duel)))
   \<and> addPlayerToRoom 5 ''ABC123'' ''bob'' lobby_duel = (Inl (RoomFull 2), lobby_duel)
   \<and> addPlayerToRoom 5 ''ABC123'' ''bob'' lobby_duel \<noteq> (Inl UsernameTaken, lobby_duel)
   \<and> maxPlayers (room_of ''ABC123'' game_duel) \<le> length (players (room_of ''ABC123'' game_duel))
   \<and> addPlayerToRoom 5 ''ABC123'' ''dave'' game_duel = (Inl GameAlreadyInProgress, game_duel)
   \<and> addPlayerToRoom 5 ''ABC123'' ''dave'' game_duel \<noteq> (Inl (RoomFull 2), game_duel)"
  by code_simp

text \<open>
  C7, amended. Joining a room (\<open>addPlayerToRoom\<close>) makes four checks in this order, and the
  first that fails gives the error: \<open>RoomNotFound\<close> when no room has the code; otherwise
  \<open>GameAlreadyInProgress\<close> when the room is not waiting; otherwise \<open>RoomFull\<close> when the room
  has \<open>maxPlayers\<close> players or more; otherwise \<open>UsernameTaken\<close> when a player of the room has
  the name already. A failed join leaves the store as it was, and a join that meets none of
  the four conditions succeeds.
\<close>

theorem addPlayerToRoom_rejections:
  "(getRoom c rooms = None \<longrightarrow>
      addPlayerToRoom now c u rooms = (Inl RoomNotFound, rooms)) \<and>
   (getRoom c rooms = Some room \<and> status room \<noteq> Waiting \<longrightarrow>
      addPlayerToRoom now c u rooms = (Inl GameAlreadyInProgress, rooms)) \<and>
   (getRoom c rooms = Some room \<and> status room = Waiting
        \<and> maxPlayers room \<le> length (players room) \<longrightarrow>
      addPlayerToRoom now c u rooms = (Inl (RoomFull (maxPlayers room)), rooms)) \<and>
   (getRoom c rooms = Some room \<and> status room = Waiting
        \<and> length (players room) < maxPlayers room
        \<and> (\<exists>p\<in>set (players room). username p = u) \<longrightarrow>
      addPlayerToRoom now c u rooms = (Inl UsernameTaken, rooms)) \<and>
   (getRoom c rooms = Some room \<and> status room = Waiting
        \<and> length (players room) < maxPlayers room
        \<and> (\<forall>p\<in>set (players room). username p \<noteq> u) \<longrightarrow>
      \<not> isl (fst (addPlayerToRoom now c u rooms))) \<and>
   (isl (fst (addPlayerToRoom now c u rooms)) \<longrightarrow>
      snd (addPlayerToRoom now c u rooms) = rooms)"
  by (auto simp: addPlayerToRoom_def getRoom_def list_ex_iff Let_def split: option.splits)

theorem addPlayerToRoom_rejections_witness:
  "addPlayerToRoom 5 ''NOPE00'' ''dave'' lobby_duel = (Inl RoomNotFound, lobby_duel)
   \<and> addPlayerToRoom 5 ''ABC123'' ''dave'' game_duel = (Inl GameAlreadyInProgress, game_duel)
   \<and> addPlayerToRoom 5 ''ABC123'' ''dave'' lobby_duel = (Inl (RoomFull 2), lobby_duel)
   \<and> addPlayerToRoom 5 ''XYZ789'' ''bob'' lobby_royale = (Inl UsernameTaken, lobby_royale)
   \<and> \<not> isl (fst (addPlayerToRoom 5 ''XYZ789'' ''dave'' lobby_royale))"
proof -
  have 1: "getRoom ''NOPE00'' lobby_duel = None"
    by code_simp
  have 2: "getRoom ''ABC123'' game_duel = Some (room_of ''ABC123'' game_duel)"
    "status (room_of ''ABC123'' game_duel) \<noteq> Waiting"
    by code_simp+
  have 3: "getRoom ''ABC123'' lobby_duel = Some (room_of ''ABC123'' lobby_duel)"
    "status (room_of ''ABC123'' lobby_duel) = Waiting"
    "maxPlayers (room_of ''ABC123'' lobby_duel) \<le> length (players (room_of ''ABC123'' lobby_duel))"
    "maxPlayers (room_of ''ABC123'' lobby_duel) = 2"
    by code_simp+
  have 4: "getRoom ''XYZ789'' lobby_royale = Some (room_of ''XYZ789'' lobby_royale)"
    "status (room_of ''XYZ789'' lobby_royale) = Waiting"
    "length (players (room_of ''XYZ789'' lobby_royale)) < maxPlayers (room_of ''XYZ789'' lobby_royale)"
    "\<exists>p\<in>set (players (room_of ''XYZ789'' lobby_royale)). username p = ''bob''"
    "\<forall>p\<in>set (players (room_of ''XYZ789'' lobby_royale)). username p \<noteq> ''dave''"
    by code_simp+
  note t = addPlayerToRoom_rejections[where now = 5]
  from 1 t[where c = "''NOPE00''" and rooms = lobby_duel and u = "''dave''"]
  have a: "addPlayerToRoom 5 ''NOPE00'' ''dave'' lobby_duel = (Inl RoomNotFound, lobby_duel)"
    by blast
  from 2 t[where c = "''ABC123''" and rooms = game_duel and u = "''dave''"
      and room = "room_of ''ABC123'' game_duel"]
  have b: "addPlayerToRoom 5 ''ABC123'' ''dave'' game_duel = (Inl GameAlreadyInProgress, game_duel)"
    by blast
  from 3 t[where c = "''ABC123''" and rooms = lobby_duel and u = "''dave''"
      and room = "room_of ''ABC123'' lobby_duel"]
  have c: "addPlayerToRoom 5 ''ABC123'' ''dave'' lobby_duel = (Inl (RoomFull 2), lobby_duel)"
    by metis
  from 4 t[where c = "''XYZ789''" and rooms = lobby_royale and u = "''bob''"
      and room = "room_of ''XYZ789'' lobby_royale"]
  have d: "addPlayerToRoom 5 ''XYZ789'' ''bob'' lobby_royale = (Inl UsernameTaken, lobby_royale)"
    by blast
  from 4 t[where c = "''XYZ789''" and rooms = lobby_royale and u = "''dave''"
      and room = "room_of ''XYZ789'' lobby_royale"]
  have e: "\<not> isl (fst (addPlayerToRoom 5 ''XYZ789'' ''dave'' lobby_royale))"
    by blast
  from a b c d e show ?thesis by blast
qed

text \<open>
  C8. Leaving a room (\<open>removePlayerFromRoom\<close>) answers \<open>False\<close> and changes nothing when the
  room or the player does not exist. Otherwise it answers \<open>True\<close> and takes the first player
  of that name out of the list, which for distinct names is the list without that name, in
  the order of joining. If no player is left the room is deleted and a lookup of its code
  finds nothing; if players are left the room stays, and when the host was the one who left
  the first remaining player is the new host. Other rooms are not touched.
\<close>

theorem removePlayerFromRoom_effect:
  "(getRoom c rooms = None \<longrightarrow> removePlayerFromRoom now c u rooms = (False, rooms)) \<and>
   (getRoom c rooms = Some room \<and> (\<forall>p\<in>set (players room). username p \<noteq> u) \<longrightarrow>
      removePlayerFromRoom now c u rooms = (False, rooms)) \<and>
   (getRoom c rooms = Some room \<and> (\<exists>p\<in>set (players room). username p = u) \<longrightarrow>
      (\<exists>i. findIndex (\<lambda>p. username p = u) (players room) = Some i
         \<and> fst (removePlayerFromRoom now c u rooms) = True
         \<and> (distinct (map username (players room)) \<longrightarrow>
              splice1 i (players room) = filter (\<lambda>p. username p \<noteq> u) (players room))
         \<and> (splice1 i (players room) = [] \<longrightarrow>
              getRoom c (snd (removePlayerFromRoom now c u rooms)) = None)
         \<and> (splice1 i (players room) \<noteq> [] \<longrightarrow>
              getRoom c (snd (removePlayerFromRoom now c u rooms)) =
                Some (room\<lparr>players := splice1 i (players room), lastActivity := now,
                           hostId := (if hostId room = u
                                      then username (splice1 i (players room) ! 0)
                                      else hostId room)\<rparr>))
         \<and> (\<forall>c'. c' \<noteq> c \<longrightarrow>
              getRoom c' (snd (removePlayerFromRoom now c u rooms)) = getRoom c' rooms)))"
proof (intro conjI impI)
  show "removePlayerFromRoom now c u rooms = (False, rooms)" if "getRoom c rooms = None"
    using that by (simp add: removePlayerFromRoom_def getRoom_def)
next
  assume "getRoom c rooms = Some room \<and> (\<forall>p\<in>set (players room). username p \<noteq> u)"
  then have "map_of rooms c = Some room"
    and "findIndex (\<lambda>p. username p = u) (players room) = None"
    by (simp_all add: findIndex_None getRoom_def)
  then show "removePlayerFromRoom now c u rooms = (False, rooms)"
    by (simp add: removePlayerFromRoom_def)
next
  assume a: "getRoom c rooms = Some room \<and> (\<exists>p\<in>set (players room). username p = u)"
  then obtain i where i: "findIndex (\<lambda>p. username p = u) (players room) = Some i"
    using findIndex_ex[of "players room" "\<lambda>p. username p = u"] by blast
  let ?rest = "splice1 i (players room)"
  have r: "map_of rooms c = Some room" using a by (simp add: getRoom_def)
  have 1: "fst (removePlayerFromRoom now c u rooms) = True"
    using r i by (simp add: removePlayerFromRoom_def Let_def split: list.splits)
  have 2: "distinct (map username (players room)) \<longrightarrow>
             ?rest = filter (\<lambda>p. username p \<noteq> u) (players room)"
    using splice1_distinct[of username "players room" u i] i by simp
  have 3: "?rest = [] \<longrightarrow> getRoom c (snd (removePlayerFromRoom now c u rooms)) = None"
    using r i by (simp add: removePlayerFromRoom_def getRoom_def map_of_deleteRoom)
  have 4: "?rest \<noteq> [] \<longrightarrow>
        getRoom c (snd (removePlayerFromRoom now c u rooms)) =
          Some (room\<lparr>players := ?rest, lastActivity := now,
                     hostId := (if hostId room = u then username (?rest ! 0)
                                else hostId room)\<rparr>)"
    using r i
    by (cases ?rest)
       (simp_all add: removePlayerFromRoom_def getRoom_def map_of_update_same Let_def)
  have 5: "\<forall>c'. c' \<noteq> c \<longrightarrow>
        getRoom c' (snd (removePlayerFromRoom now c u rooms)) = getRoom c' rooms"
    using r i
    by (cases ?rest)
       (simp_all add: removePlayerFromRoom_def getRoom_def map_of_update_other
          map_of_deleteRoom Let_def)
  from i 1 2 3 4 5
  show "\<exists>i. findIndex (\<lambda>p. username p = u) (players room) = Some i
         \<and> fst (removePlayerFromRoom now c u rooms) = True
         \<and> (distinct (map username (players room)) \<longrightarrow>
              splice1 i (players room) = filter (\<lambda>p. username p \<noteq> u) (players room))
         \<and> (splice1 i (players room) = [] \<longrightarrow>
              getRoom c (snd (removePlayerFromRoom now c u rooms)) = None)
         \<and> (splice1 i (players room) \<noteq> [] \<longrightarrow>
              getRoom c (snd (removePlayerFromRoom now c u rooms)) =
                Some (room\<lparr>players := splice1 i (players room), lastActivity := now,
                           hostId := (if hostId room = u
                                      then username (splice1 i (players room) ! 0)
                                      else hostId room)\<rparr>))
         \<and> (\<forall>c'. c' \<noteq> c \<longrightarrow>
              getRoom c' (snd (removePlayerFromRoom now c u rooms)) = getRoom c' rooms)"
    by blast
qed

theorem removePlayerFromRoom_effect_witness:
  "removePlayerFromRoom 9 ''NOPE00'' ''alice'' lobby_royale = (False, lobby_royale)
   \<and> removePlayerFromRoom 9 ''XYZ789'' ''dave'' lobby_royale = (False, lobby_royale)
   \<and> fst (removePlayerFromRoom 9 ''XYZ789'' ''alice'' lobby_royale) = True
   \<and> map_option hostId (getRoom ''XYZ789'' (snd (removePlayerFromRoom 9 ''XYZ789'' ''alice'' lobby_royale)))
       = Some ''bob''
   \<and> map_option (map username \<circ> players)
        (getRoom ''XYZ789'' (snd (removePlayerFromRoom 9 ''XYZ789'' ''alice'' lobby_royale)))
       = Some [''bob'', ''carol'']
   \<and> fst (removePlayerFromRoom 9 ''OLD001'' ''alice'' three_rooms) = True
   \<and> getRoom ''OLD001'' (snd (removePlayerFromRoom 9 ''OLD001'' ''alice'' three_rooms)) = None
   \<and> getRoom ''NEW003'' (snd (removePlayerFromRoom 9 ''OLD001'' ''alice'' three_rooms))
       = getRoom ''NEW003'' three_rooms"
proof -
  let ?r = "room_of ''XYZ789'' lobby_royale"
  let ?o = "room_of ''OLD001'' three_rooms"
  have 1: "getRoom ''NOPE00'' lobby_royale = None"
    by code_simp
  have 2: "getRoom ''XYZ789'' lobby_royale = Some ?r"
    "\<forall>p\<in>set (players ?r). username p \<noteq> ''dave''"
    "\<exists>p\<in>set (players ?r). username p = ''alice''"
    "findIndex (\<lambda>p. username p = ''alice'') (players ?r) = Some 0"
    "splice1 0 (players ?r) \<noteq> []"
    "hostId ?r = ''alice''"
    "username (splice1 0 (players ?r) ! 0) = ''bob''"
    "map username (splice1 0 (players ?r)) = [''bob'', ''carol'']"
    by code_simp+
  have 3: "getRoom ''OLD001'' three_rooms = Some ?o"
    "\<exists>p\<in>set (players ?o). username p = ''alice''"
    "findIndex (\<lambda>p. username p = ''alice'') (players ?o) = Some 0"
    "splice1 0 (players ?o) = []"
    by code_simp+
  note t = removePlayerFromRoom_effect[where now = 9]
  from 1 t[where c = "''NOPE00''" and rooms = lobby_royale and u = "''alice''"]
  have a: "removePlayerFromRoom 9 ''NOPE00'' ''alice'' lobby_royale = (False, lobby_royale)"
    by blast
  from 2 t[where c = "''XYZ789''" and rooms = lobby_royale and u = "''dave''" and room = ?r]
  have b: "removePlayerFromRoom 9 ''XYZ789'' ''dave'' lobby_royale = (False, lobby_royale)"
    by blast
  from 2 t[where c = "''XYZ789''" and rooms = lobby_royale and u = "''alice''" and room = ?r]
  have c: "fst (removePlayerFromRoom 9 ''XYZ789'' ''alice'' lobby_royale) = True"
    and d: "getRoom ''XYZ789'' (snd (removePlayerFromRoom 9 ''XYZ789'' ''alice'' lobby_royale)) =
      Some (?r\<lparr>players := splice1 0 (players ?r), lastActivity := 9, hostId := ''bob''\<rparr>)"
    by auto
  from 3 t[where c = "''OLD001''" and rooms = three_rooms and u = "''alice''" and room = ?o]
  have e: "fst (removePlayerFromRoom 9 ''OLD001'' ''alice'' three_rooms) = True"
    and f: "getRoom ''OLD001'' (snd (removePlayerFromRoom 9 ''OLD001'' ''alice'' three_rooms)) = None"
    and g: "getRoom ''NEW003'' (snd (removePlayerFromRoom 9 ''OLD001'' ''alice'' three_rooms))
       = getRoom ''NEW003'' three_rooms"
    by auto
  from a b c d e f g 2(8) show ?thesis by simp
qed

text \<open>
  C9. The sweep (\<open>cleanupOldRooms\<close>) deletes exactly the rooms whose age \<open>now - createdAt\<close> is
  greater than the maximum age (the configured hours in milliseconds): the store after the
  sweep is the store before it without those rooms, every other room is found under its
  code unchanged, and no room appears. The keys of the store are distinct, as the keys of a
  \<open>Map\<close> are.
\<close>

theorem cleanupOldRooms_exact:
  assumes "distinct (map fst rooms)"
  shows "cleanupOldRooms now hours rooms =
           filter (\<lambda>(c, room). \<not> (now - createdAt room > hours * 60 * 60 * 1000)) rooms
         \<and> (getRoom c rooms = Some room \<longrightarrow>
              getRoom c (cleanupOldRooms now hours rooms) =
                (if now - createdAt room > hours * 60 * 60 * 1000 then None else Some room))
         \<and> (getRoom c rooms = None \<longrightarrow> getRoom c (cleanupOldRooms now hours rooms) = None)"
proof -
  define m where "m = hours * 60 * 60 * 1000"
  define keep where "keep = (\<lambda>e :: string \<times> room. \<not> (now - createdAt (snd e) > m))"
  have eq: "cleanupOldRooms now hours rooms = filter keep rooms"
    unfolding cleanupOldRooms_def cleanup_loop_filter m_def[symmetric]
  proof (rule filter_cong[OF refl])
    fix e assume e: "e \<in> set rooms"
    obtain k v where kv: "e = (k, v)" by (cases e)
    have u: "r = v" if "(k, r) \<in> set rooms" for r
      using store_key_unique[OF assms _ that, of v] e kv by simp
    have "(\<forall>r. (k, r) \<in> set rooms \<longrightarrow> \<not> now - createdAt r > m) = (\<not> now - createdAt v > m)"
      using u e kv by blast
    then show "(case e of (k, v) \<Rightarrow> \<not> (\<exists>r. (k, r) \<in> set rooms \<and> now - createdAt r > m))
             = keep e"
      by (simp add: kv keep_def)
  qed
  have d: "distinct (map fst (filter keep rooms))"
    using assms by (rule distinct_map_filter)
  have a: "getRoom c rooms = Some room \<longrightarrow>
             getRoom c (cleanupOldRooms now hours rooms) =
               (if now - createdAt room > m then None else Some room)"
  proof
    assume "getRoom c rooms = Some room"
    then have mem: "(c, room) \<in> set rooms"
      by (simp add: getRoom_def map_of_SomeD)
    show "getRoom c (cleanupOldRooms now hours rooms) =
            (if now - createdAt room > m then None else Some room)"
    proof (cases "now - createdAt room > m")
      case True
      have "c \<notin> fst ` set (filter keep rooms)"
      proof
        assume "c \<in> fst ` set (filter keep rooms)"
        then obtain r where r: "(c, r) \<in> set rooms" "keep (c, r)" by auto
        from store_key_unique[OF assms mem r(1)] have "r = room" .
        with r(2) True show False by (simp add: keep_def)
      qed
      then have "map_of (filter keep rooms) c = None" by (simp add: map_of_eq_None_iff)
      then show ?thesis using True by (simp add: eq getRoom_def)
    next
      case False
      with mem have "(c, room) \<in> set (filter keep rooms)" by (simp add: keep_def)
      with d have "map_of (filter keep rooms) c = Some room" by (rule map_of_is_SomeI)
      then show ?thesis using False by (simp add: eq getRoom_def)
    qed
  qed
  have b: "getRoom c rooms = None \<longrightarrow> getRoom c (cleanupOldRooms now hours rooms) = None"
  proof
    assume "getRoom c rooms = None"
    then have "c \<notin> fst ` set rooms" by (simp add: getRoom_def map_of_eq_None_iff)
    then have "c \<notin> fst ` set (filter keep rooms)" by auto
    then have "map_of (filter keep rooms) c = None" by (simp add: map_of_eq_None_iff)
    then show "getRoom c (cleanupOldRooms now hours rooms) = None" by (simp add: eq getRoom_def)
  qed
  have k: "keep = (\<lambda>(c, room). \<not> (now - createdAt room > m))"
    by (auto simp: keep_def fun_eq_iff)
  from eq a b show ?thesis unfolding k m_def by blast
qed

text \<open>With a maximum age of 24 hours and the clock at 100000000 ms, the room created at 0 is
  older than the maximum and goes; the room created at 13600000 is exactly 24 hours old and
  stays, as does the younger one.\<close>

theorem cleanupOldRooms_exact_witness:
  "distinct (map fst three_rooms)
   \<and> map fst (cleanupOldRooms 100000000 24 three_rooms) = [''MID002'', ''NEW003'']
   \<and> getRoom ''OLD001'' (cleanupOldRooms 100000000 24 three_rooms) = None
   \<and> getRoom ''MID002'' (cleanupOldRooms 100000000 24 three_rooms) = getRoom ''MID002'' three_rooms
   \<and> getRoom ''NOPE00'' (cleanupOldRooms 100000000 24 three_rooms) = None"
proof -
  let ?old = "room_of ''OLD001'' three_rooms"
  let ?mid = "room_of ''MID002'' three_rooms"
  have d: "distinct (map fst three_rooms)"
    by code_simp
  have 1: "getRoom ''OLD001'' three_rooms = Some ?old"
    "100000000 - createdAt ?old > 24 * 60 * 60 * 1000"
    "getRoom ''MID002'' three_rooms = Some ?mid"
    "\<not> 100000000 - createdAt ?mid > 24 * 60 * 60 * 1000"
    "getRoom ''NOPE00'' three_rooms = None"
    "map fst (filter (\<lambda>(c, room). \<not> (100000000 - createdAt room > 24 * 60 * 60 * 1000))
       three_rooms) = [''MID002'', ''NEW003'']"
    by code_simp+
  note t = cleanupOldRooms_exact[OF d, where now = 100000000 and hours = 24]
  from t[where c = "''OLD001''" and room = ?old]
  have "cleanupOldRooms 100000000 24 three_rooms =
      filter (\<lambda>(c, room). \<not> (100000000 - createdAt room > 24 * 60 * 60 * 1000)) three_rooms"
    by (rule conjunct1)
  with 1(6) have a: "map fst (cleanupOldRooms 100000000 24 three_rooms) = [''MID002'', ''NEW003'']"
    by (simp only:)
  from t[where c = "''OLD001''" and room = ?old] 1(1)
  have "getRoom ''OLD001'' (cleanupOldRooms 100000000 24 three_rooms) =
      (if 100000000 - createdAt ?old > 24 * 60 * 60 * 1000 then None else Some ?old)"
    by blast
  with 1(2) have b: "getRoom ''OLD001'' (cleanupOldRooms 100000000 24 three_rooms) = None"
    by (simp only: if_True)
  from t[where c = "''MID002''" and room = ?mid] 1(3)
  have "getRoom ''MID002'' (cleanupOldRooms 100000000 24 three_rooms) =
      (if 100000000 - createdAt ?mid > 24 * 60 * 60 * 1000 then None else Some ?mid)"
    by blast
  with 1(3,4)
  have c: "getRoom ''MID002'' (cleanupOldRooms 100000000 24 three_rooms) = getRoom ''MID002'' three_rooms"
    by (simp only: if_False)
  from t[where c = "''NOPE00''"] 1(5)
  have e: "getRoom ''NOPE00'' (cleanupOldRooms 100000000 24 three_rooms) = None"
    by blast
  from d a b c e show ?thesis by blast
qed

section \<open>Game engine\<close>

text \<open>
  C10. A call of \<open>submitGuess\<close> on the room manager that succeeds changes only the record of
  the player who guessed: one entry is appended to the player's guesses; \<open>won\<close> and \<open>score\<close>
  are set when the guess is the solution, and \<open>eliminated\<close> is set when it is not and the
  guess list has reached the maximum. The room's status, solution word and round number,
  every other player of the room and every other room are as before.
\<close>

theorem submitGuess_frame:
  assumes "submitGuess now c u guess n rooms = (Inr (result, player', room'), rooms')"
  shows "\<exists>room i. getRoom c rooms = Some room
      \<and> findIndex (\<lambda>p. username p = u) (players room) = Some i
      \<and> i < length (players room)
      \<and> getRoom c rooms' = Some room'
      \<and> (\<forall>c'. c' \<noteq> c \<longrightarrow> getRoom c' rooms' = getRoom c' rooms)
      \<and> room' = room\<lparr>players := (players room)[i := player']\<rparr>
      \<and> status room' = status room
      \<and> solutionWord room' = solutionWord room
      \<and> roundNumber room' = roundNumber room
      \<and> length (players room') = length (players room)
      \<and> (\<forall>j. j \<noteq> i \<longrightarrow> players room' ! j = players room ! j)
      \<and> player' = (players room ! i)\<lparr>
             guesses := guesses (players room ! i) @
                [\<lparr>word = guess, attempt = n, timestamp = Some now\<rparr>],
             won := (if result = Won then True else won (players room ! i)),
             score := (if result = Won then n else score (players room ! i)),
             eliminated := (result = Eliminated)\<rparr>
      \<and> (result = Won \<longleftrightarrow> guess = solutionWord room)
      \<and> (result = Eliminated \<longleftrightarrow>
           guess \<noteq> solutionWord room \<and> MAX_GUESSES \<le> length (guesses (players room ! i)) + 1)"
proof -
  from assms obtain room i where r: "map_of rooms c = Some room"
    and i: "findIndex (\<lambda>p. username p = u) (players room) = Some i"
    and e: "\<not> eliminated (players room ! i)"
    and g: "length guess = WORD_LENGTH" "all_upper guess"
    by (rule submitGuess_InrE)
  note eq = submitGuess_wellformed[OF r i e g, of now n]
  from findIndex_Some[OF i] have len: "i < length (players room)" by simp
  define res where "res = (if guess = solutionWord room then Won
                    else if MAX_GUESSES \<le> length (guesses (players room ! i)) + 1 then Eliminated
                    else Continue)"
  define p' where "p' = (players room ! i)\<lparr>
             guesses := guesses (players room ! i) @
                [\<lparr>word = guess, attempt = n, timestamp = Some now\<rparr>],
             won := (if res = Won then True else won (players room ! i)),
             score := (if res = Won then n else score (players room ! i)),
             eliminated := (res = Eliminated)\<rparr>"
  have "submitGuess now c u guess n rooms =
          (Inr (res, p', room\<lparr>players := (players room)[i := p']\<rparr>),
           AList.update c (room\<lparr>players := (players room)[i := p']\<rparr>) rooms)"
    unfolding eq res_def p'_def Let_def ..
  with assms have 1: "result = res" "player' = p'"
    "room' = room\<lparr>players := (players room)[i := p']\<rparr>" "rooms' = AList.update c room' rooms"
    by auto
  have 2: "(res = Won) = (guess = solutionWord room)"
    "(res = Eliminated) =
       (guess \<noteq> solutionWord room \<and> MAX_GUESSES \<le> length (guesses (players room ! i)) + 1)"
    by (simp_all add: res_def)
  have 3: "getRoom c rooms' = Some room'"
    "\<forall>c'. c' \<noteq> c \<longrightarrow> getRoom c' rooms' = getRoom c' rooms"
    by (simp_all add: 1(4) getRoom_def map_of_update_same map_of_update_other)
  have 4: "status room' = status room" "solutionWord room' = solutionWord room"
    "roundNumber room' = roundNumber room" "length (players room') = length (players room)"
    "\<forall>j. j \<noteq> i \<longrightarrow> players room' ! j = players room ! j"
    by (simp_all add: 1(3))
  show ?thesis
    apply (rule exI[of _ room], rule exI[of _ i])
    using r i len 1 2 3 4 unfolding p'_def getRoom_def by simp
qed

theorem submitGuess_frame_witness:
  "royale_win =
     (Inr (Won, fst (snd (projr (fst royale_win))), room_of ''XYZ789'' (snd royale_win)),
      snd royale_win)
   \<and> room_status ''XYZ789'' (snd royale_win) = room_status ''XYZ789'' game_royale
   \<and> solutionWord (room_of ''XYZ789'' (snd royale_win)) =
       solutionWord (room_of ''XYZ789'' game_royale)
   \<and> players (room_of ''XYZ789'' (snd royale_win)) ! 1 = players (room_of ''XYZ789'' game_royale) ! 1
   \<and> players (room_of ''XYZ789'' (snd royale_win)) ! 2 = players (room_of ''XYZ789'' game_royale) ! 2
   \<and> player_flags ''XYZ789'' (snd royale_win) =
       [(''alice'', 1, True, False), (''bob'', 0, False, False), (''carol'', 0, False, False)]"
proof -
  let ?R = "room_of ''XYZ789'' (snd royale_win)"
  have h: "royale_win = (Inr (Won, fst (snd (projr (fst royale_win))), ?R), snd royale_win)"
    by code_simp
  have i0: "findIndex (\<lambda>p. username p = ''alice'') (players (room_of ''XYZ789'' game_royale)) = Some 0"
    by code_simp
  have f: "player_flags ''XYZ789'' (snd royale_win) =
       [(''alice'', 1, True, False), (''bob'', 0, False, False), (''carol'', 0, False, False)]"
    by code_simp
  from submitGuess_frame[OF h[unfolded royale_win_def]]
  obtain room i where r: "getRoom ''XYZ789'' game_royale = Some room"
    and i: "findIndex (\<lambda>p. username p = ''alice'') (players room) = Some i"
    and s: "getRoom ''XYZ789'' (snd royale_win) = Some ?R" "status ?R = status room"
      "solutionWord ?R = solutionWord room"
    and o: "\<forall>j. j \<noteq> i \<longrightarrow> players ?R ! j = players room ! j"
    unfolding royale_win_def by blast
  from r have room: "room = room_of ''XYZ789'' game_royale" by (simp add: room_of_def)
  from i i0 have "i = 0" by (simp add: room)
  with o have "players ?R ! 1 = players room ! 1" "players ?R ! 2 = players room ! 2" by simp_all
  with h f r s show ?thesis by (simp add: room_status_def room)
qed

text \<open>
  C5. For a room that is waiting and has at least two players, \<open>startGame\<close> succeeds: it sets
  the solution word (the trimmed, upper-cased custom word when one is given, a word of the
  fallback list otherwise), resets every player to no guesses, not eliminated, not won and
  score 0 (the players and their order stay), and sets the status to playing, the start
  time to now and the round number to 1. For a room with fewer than two players \<open>startGame\<close>
  is rejected, whatever the mode, by the room manager and by the handler, and the store is
  unchanged.
\<close>

theorem startGame_effect:
  "(getRoom c rooms = Some room \<and> status room = Waiting \<and> 2 \<le> length (players room) \<longrightarrow>
      (\<exists>room'. startGame now rnd c customWord rooms = (Inr room', AList.update c room' rooms)
         \<and> getRoom c (snd (startGame now rnd c customWord rooms)) = Some room'
         \<and> solutionWord room' =
             (if custom_given customWord then toUpperCase (trim (the customWord))
              else getRandomWord rnd)
         \<and> (custom_given customWord \<or> solutionWord room' \<in> set fallbackWords)
         \<and> map username (players room') = map username (players room)
         \<and> (\<forall>p\<in>set (players room').
               guesses p = [] \<and> \<not> eliminated p \<and> \<not> won p \<and> score p = 0)
         \<and> status room' = Playing
         \<and> gameStartTime room' = Some now
         \<and> roundNumber room' = 1)) \<and>
   (getRoom c rooms = Some room \<and> length (players room) < 2 \<longrightarrow>
      (\<exists>e. startGame now rnd c customWord rooms = (Inl e, rooms))
      \<and> (\<exists>msg. handleStartGame words now rnd c customWord rooms = ([GameError msg], rooms)))"
proof (intro conjI impI)
  assume a: "getRoom c rooms = Some room \<and> status room = Waiting \<and> 2 \<le> length (players room)"
  define room' where "room' = room\<lparr>
      solutionWord := (if custom_given customWord then toUpperCase (trim (the customWord))
                       else getRandomWord rnd),
      players := map reset_player (players room),
      status := Playing, gameStartTime := Some now, roundNumber := 1, lastActivity := now\<rparr>"
  have 1: "startGame now rnd c customWord rooms = (Inr room', AList.update c room' rooms)"
    using a by (simp add: startGame_def getRoom_def room'_def Let_def)
  have 2: "getRoom c (snd (startGame now rnd c customWord rooms)) = Some room'"
    by (simp add: 1 getRoom_def map_of_update_same)
  have 3: "solutionWord room' =
             (if custom_given customWord then toUpperCase (trim (the customWord))
              else getRandomWord rnd)"
    by (simp add: room'_def)
  have 4: "custom_given customWord \<or> solutionWord room' \<in> set fallbackWords"
    using getRandomWord_fallback[of rnd] by (simp add: room'_def)
  have 5: "map username (players room') = map username (players room)"
    by (simp add: room'_def reset_player_fields comp_def)
  have 6: "\<forall>p\<in>set (players room'). guesses p = [] \<and> \<not> eliminated p \<and> \<not> won p \<and> score p = 0"
    by (auto simp: room'_def reset_player_fields)
  have 7: "status room' = Playing" "gameStartTime room' = Some now" "roundNumber room' = 1"
    by (simp_all add: room'_def)
  from 1 2 3 4 5 6 7
  show "\<exists>room'. startGame now rnd c customWord rooms = (Inr room', AList.update c room' rooms)
         \<and> getRoom c (snd (startGame now rnd c customWord rooms)) = Some room'
         \<and> solutionWord room' =
             (if custom_given customWord then toUpperCase (trim (the customWord))
              else getRandomWord rnd)
         \<and> (custom_given customWord \<or> solutionWord room' \<in> set fallbackWords)
         \<and> map username (players room') = map username (players room)
         \<and> (\<forall>p\<in>set (players room').
               guesses p = [] \<and> \<not> eliminated p \<and> \<not> won p \<and> score p = 0)
         \<and> status room' = Playing
         \<and> gameStartTime room' = Some now
         \<and> roundNumber room' = 1"
    by blast
next
  assume a: "getRoom c rooms = Some room \<and> length (players room) < 2"
  then show "\<exists>e. startGame now rnd c customWord rooms = (Inl e, rooms)"
    by (simp add: startGame_def getRoom_def)
next
  assume a: "getRoom c rooms = Some room \<and> length (players room) < 2"
  then show "\<exists>msg. handleStartGame words now rnd c customWord rooms = ([GameError msg], rooms)"
    by (cases "mode room") (simp_all add: handleStartGame_def getRoom_def)
qed

text \<open>Starting the duel of alice and bob with the custom word \<open>games\<close>, from a waiting room
  in which alice already has six guesses and is eliminated; and trying to start the two
  rooms that have one player each, one a duel and one a battle royale.\<close>

theorem startGame_effect_witness:
  "room_status ''ABC123'' lobby_stale = Some Waiting
   \<and> player_flags ''ABC123'' lobby_stale
       = [(''alice'', 6, False, True), (''bob'', 0, False, False)]
   \<and> room_status ''ABC123'' (snd (startGame 2 0 ''ABC123'' (Some '' games '') lobby_stale))
       = Some Playing
   \<and> map_option solutionWord
        (getRoom ''ABC123'' (snd (startGame 2 0 ''ABC123'' (Some '' games '') lobby_stale)))
       = Some ''GAMES''
   \<and> map_option gameStartTime
        (getRoom ''ABC123'' (snd (startGame 2 0 ''ABC123'' (Some '' games '') lobby_stale)))
       = Some (Some 2)
   \<and> player_flags ''ABC123'' (snd (startGame 2 0 ''ABC123'' (Some '' games '') lobby_stale))
       = [(''alice'', 0, False, False), (''bob'', 0, False, False)]
   \<and> isl (fst (startGame 2 0 ''OLD001'' None three_rooms))
   \<and> snd (startGame 2 0 ''OLD001'' None three_rooms) = three_rooms
   \<and> isl (fst (startGame 2 0 ''MID002'' None three_rooms))
   \<and> snd (handleStartGame fallbackWords 2 0 ''MID002'' None three_rooms) = three_rooms"
proof -
  let ?S = "snd (startGame 2 0 ''ABC123'' (Some '' games '') lobby_stale)"
  have 0: "room_status ''ABC123'' lobby_stale = Some Waiting"
    "player_flags ''ABC123'' lobby_stale = [(''alice'', 6, False, True), (''bob'', 0, False, False)]"
    by code_simp+
  have 1: "getRoom ''ABC123'' lobby_stale = Some (room_of ''ABC123'' lobby_stale)
      \<and> status (room_of ''ABC123'' lobby_stale) = Waiting
      \<and> 2 \<le> length (players (room_of ''ABC123'' lobby_stale))"
    by code_simp
  have 2: "custom_given (Some '' games '')" "toUpperCase (trim (the (Some '' games ''))) = ''GAMES''"
    "map username (players (room_of ''ABC123'' lobby_stale)) = [''alice'', ''bob'']"
    by code_simp+
  have 3: "getRoom ''OLD001'' three_rooms = Some (room_of ''OLD001'' three_rooms)
      \<and> length (players (room_of ''OLD001'' three_rooms)) < 2"
    "getRoom ''MID002'' three_rooms = Some (room_of ''MID002'' three_rooms)
      \<and> length (players (room_of ''MID002'' three_rooms)) < 2"
    by code_simp+
  from 1 startGame_effect[where c = "''ABC123''" and rooms = lobby_stale and now = 2 and rnd = 0
      and room = "room_of ''ABC123'' lobby_stale" and customWord = "Some '' games ''"]
  obtain room' where r: "getRoom ''ABC123'' ?S = Some room'"
    and w: "solutionWord room' =
      (if custom_given (Some '' games '') then toUpperCase (trim (the (Some '' games '')))
       else getRandomWord 0)"
    and u: "map username (players room') = map username (players (room_of ''ABC123'' lobby_stale))"
    and p: "\<forall>p\<in>set (players room'). guesses p = [] \<and> \<not> eliminated p \<and> \<not> won p \<and> score p = 0"
    and s: "status room' = Playing" "gameStartTime room' = Some 2"
    by blast
  from w 2 have w': "solutionWord room' = ''GAMES''" by (simp only: if_True)
  from u 2(3) have "map username (players room') = [''alice'', ''bob'']" by simp
  then obtain pa pb where ps: "players room' = [pa, pb]" "username pa = ''alice''"
    "username pb = ''bob''"
    by auto
  with p have f: "player_flags ''ABC123'' ?S
       = [(''alice'', 0, False, False), (''bob'', 0, False, False)]"
    by (simp add: player_flags_def r)
  from 3(1) startGame_effect[where c = "''OLD001''" and rooms = three_rooms and now = 2 and rnd = 0
      and room = "room_of ''OLD001'' three_rooms" and customWord = None and words = fallbackWords]
  have a: "isl (fst (startGame 2 0 ''OLD001'' None three_rooms))"
    "snd (startGame 2 0 ''OLD001'' None three_rooms) = three_rooms"
    by auto
  from 3(2) startGame_effect[where c = "''MID002''" and rooms = three_rooms and now = 2 and rnd = 0
      and room = "room_of ''MID002'' three_rooms" and customWord = None and words = fallbackWords]
  have b: "isl (fst (startGame 2 0 ''MID002'' None three_rooms))"
    "snd (handleStartGame fallbackWords 2 0 ''MID002'' None three_rooms) = three_rooms"
    by auto
  from 0 r w' s f a b show ?thesis by (simp add: room_status_def)
qed

text \<open>
  C3 as stated, that every successful mutating operation of the store sets \<open>lastActivity\<close>
  to the current time, does not hold for \<open>submitGuess\<close>: a guess recorded at time 99, by the
  room manager alone or through the handler, leaves the \<open>lastActivity\<close> of the room at 2,
  the time the game was started.
\<close>

theorem submitGuess_lastActivity_counterexample:
  "\<not> isl (fst (submitGuess 99 ''ABC123'' ''alice'' ''WORLD'' 1 game_duel))
   \<and> map_option lastActivity
        (getRoom ''ABC123'' (snd (submitGuess 99 ''ABC123'' ''alice'' ''WORLD'' 1 game_duel)))
       = Some 2
   \<and> map_option lastActivity
        (getRoom ''ABC123'' (snd (handleSubmitGuess 99 ''ABC123'' ''alice'' ''WORLD'' 1 game_duel)))
       = Some 2
   \<and> player_flags ''ABC123'' (snd (submitGuess 99 ''ABC123'' ''alice'' ''WORLD'' 1 game_duel))
       = [(''alice'', 1, False, False), (''bob'', 0, False, False)]"
  by code_simp

text \<open>
  C3, amended. A successful \<open>addPlayerToRoom\<close> and a successful \<open>startGame\<close> set the
  \<open>lastActivity\<close> of the room to the current time, and so does a \<open>removePlayerFromRoom\<close> that
  removes a player and leaves the room in the store. A successful \<open>submitGuess\<close> leaves
  \<open>lastActivity\<close> as it was.
\<close>

theorem lastActivity_touched:
  "(fst (addPlayerToRoom now c u rooms) = Inr room1 \<longrightarrow>
      getRoom c (snd (addPlayerToRoom now c u rooms)) = Some room1 \<and> lastActivity room1 = now) \<and>
   (fst (removePlayerFromRoom now c u rooms) = True
        \<and> getRoom c (snd (removePlayerFromRoom now c u rooms)) = Some room2 \<longrightarrow>
      lastActivity room2 = now) \<and>
   (fst (startGame now rnd c customWord rooms) = Inr room3 \<longrightarrow>
      getRoom c (snd (startGame now rnd c customWord rooms)) = Some room3
      \<and> lastActivity room3 = now) \<and>
   (getRoom c rooms = Some room
        \<and> fst (submitGuess now c u guess n rooms) = Inr (result, player', room4) \<longrightarrow>
      getRoom c (snd (submitGuess now c u guess n rooms)) = Some room4
      \<and> lastActivity room4 = lastActivity room)"
proof (intro conjI impI)
  assume "fst (addPlayerToRoom now c u rooms) = Inr room1"
  then show "getRoom c (snd (addPlayerToRoom now c u rooms)) = Some room1"
    and "lastActivity room1 = now"
    by (auto simp: addPlayerToRoom_def getRoom_def map_of_update_same Let_def
        split: option.splits if_splits)
next
  assume a: "fst (removePlayerFromRoom now c u rooms) = True
        \<and> getRoom c (snd (removePlayerFromRoom now c u rooms)) = Some room2"
  then obtain room i where r: "map_of rooms c = Some room"
    and i: "findIndex (\<lambda>p. username p = u) (players room) = Some i"
    by (auto simp: removePlayerFromRoom_def split: option.splits)
  show "lastActivity room2 = now"
  proof (cases "splice1 i (players room)")
    case Nil
    with a r i show ?thesis
      by (simp add: removePlayerFromRoom_def getRoom_def map_of_deleteRoom)
  next
    case (Cons p0 ps)
    with a r i show ?thesis
      by (auto simp: removePlayerFromRoom_def getRoom_def map_of_update_same Let_def
          split: if_splits)
  qed
next
  assume "fst (startGame now rnd c customWord rooms) = Inr room3"
  then show "getRoom c (snd (startGame now rnd c customWord rooms)) = Some room3"
    and "lastActivity room3 = now"
    by (auto simp: startGame_def getRoom_def map_of_update_same Let_def
        split: option.splits if_splits)
next
  assume a: "getRoom c rooms = Some room
        \<and> fst (submitGuess now c u guess n rooms) = Inr (result, player', room4)"
  obtain rooms' where s: "submitGuess now c u guess n rooms = (Inr (result, player', room4), rooms')"
    using a by (cases "submitGuess now c u guess n rooms") simp
  then obtain room0 i where r: "map_of rooms c = Some room0"
    and i: "findIndex (\<lambda>p. username p = u) (players room0) = Some i"
    and e: "\<not> eliminated (players room0 ! i)"
    and g: "length guess = WORD_LENGTH" "all_upper guess"
    by (rule submitGuess_InrE)
  from a r have "room0 = room" by (simp add: getRoom_def)
  with s submitGuess_wellformed[OF r i e g, of now n]
  show "getRoom c (snd (submitGuess now c u guess n rooms)) = Some room4"
    and "lastActivity room4 = lastActivity room"
    by (auto simp: Let_def getRoom_def map_of_update_same)
qed

theorem lastActivity_touched_witness:
  "map_option lastActivity
     (getRoom ''XYZ789'' (snd (addPlayerToRoom 7 ''XYZ789'' ''dave'' lobby_royale))) = Some 7
   \<and> map_option lastActivity
       (getRoom ''XYZ789'' (snd (removePlayerFromRoom 9 ''XYZ789'' ''bob'' lobby_royale))) = Some 9
   \<and> map_option lastActivity
       (getRoom ''ABC123'' (snd (startGame 11 0 ''ABC123'' None lobby_duel))) = Some 11
   \<and> map_option lastActivity
       (getRoom ''ABC123'' (snd (submitGuess 99 ''ABC123'' ''alice'' ''WORLD'' 1 game_duel)))
      = map_option lastActivity (getRoom ''ABC123'' game_duel)"
proof -
  let ?A = "addPlayerToRoom 7 ''XYZ789'' ''dave'' lobby_royale"
  let ?R = "removePlayerFromRoom 9 ''XYZ789'' ''bob'' lobby_royale"
  let ?S = "startGame 11 0 ''ABC123'' None lobby_duel"
  let ?G = "submitGuess 99 ''ABC123'' ''alice'' ''WORLD'' 1 game_duel"
  have 1: "fst ?A = Inr (projr (fst ?A))"
    by code_simp
  have 2: "fst ?R = True \<and> getRoom ''XYZ789'' (snd ?R) = Some (room_of ''XYZ789'' (snd ?R))"
    by code_simp
  have 3: "fst ?S = Inr (projr (fst ?S))"
    by code_simp
  have 4: "getRoom ''ABC123'' game_duel = Some (room_of ''ABC123'' game_duel)
      \<and> fst ?G = Inr (fst (projr (fst ?G)), fst (snd (projr (fst ?G))), snd (snd (projr (fst ?G))))"
    by code_simp
  from 1 lastActivity_touched[where now = 7 and c = "''XYZ789''" and u = "''dave''"
      and rooms = lobby_royale and ?room1.0 = "projr (fst ?A)"]
  have a: "map_option lastActivity (getRoom ''XYZ789'' (snd ?A)) = Some 7"
    by simp
  from 2 lastActivity_touched[where now = 9 and c = "''XYZ789''" and u = "''bob''"
      and rooms = lobby_royale and ?room2.0 = "room_of ''XYZ789'' (snd ?R)"]
  have b: "map_option lastActivity (getRoom ''XYZ789'' (snd ?R)) = Some 9"
    by simp
  from 3 lastActivity_touched[where now = 11 and c = "''ABC123''" and rnd = 0
      and customWord = None and rooms = lobby_duel and ?room3.0 = "projr (fst ?S)"]
  have c: "map_option lastActivity (getRoom ''ABC123'' (snd ?S)) = Some 11"
    by simp
  from 4 lastActivity_touched[where now = 99 and c = "''ABC123''" and u = "''alice''"
      and guess = "''WORLD''" and n = 1 and rooms = game_duel
      and room = "room_of ''ABC123'' game_duel" and result = "fst (projr (fst ?G))"
      and player' = "fst (snd (projr (fst ?G)))" and ?room4.0 = "snd (snd (projr (fst ?G)))"]
  have d: "map_option lastActivity (getRoom ''ABC123'' (snd ?G))
      = map_option lastActivity (getRoom ''ABC123'' game_duel)"
    by simp
  from a b c d show ?thesis by blast
qed

text \<open>
  C4 as stated, that a non-empty custom word failing the validity check makes \<open>startGame\<close>
  fail without a transition, does not hold for a custom word of blanks: three spaces are a
  non-empty string that the validator rejects, yet the handler takes the word as not given,
  draws a random word and starts the game.
\<close>

theorem blank_custom_word_counterexample:
  "''   '' \<noteq> []
   \<and> \<not> isValidWord fallbackWords ''   ''
   \<and> room_status ''ABC123'' lobby_duel = Some Waiting
   \<and> fst (handleStartGame fallbackWords 5 1 ''ABC123'' (Some ''   '') lobby_duel)
       = [GameStarted ''WORLD'']
   \<and> room_status ''ABC123''
        (snd (handleStartGame fallbackWords 5 1 ''ABC123'' (Some ''   '') lobby_duel))
       = Some Playing"
  by code_simp

text \<open>
  C4, amended. When the game handler is asked to start a game with a custom word that is
  not empty after trimming and whose trimmed, upper-cased form fails the validity check,
  the request fails with an error reply and the store is unchanged: no status change, no
  solution word, no player reset. For a room that exists and has at least two players the
  reply is the invalid-word error. A custom word that is empty after trimming counts as
  not given: the handler does exactly what it does without a custom word, so for a waiting
  room with at least two players it draws a random word and starts the game.
\<close>

theorem handleStartGame_invalid_custom_word:
  "(trim w \<noteq> [] \<and> \<not> isValidWord words (toUpperCase (trim w)) \<longrightarrow>
      snd (handleStartGame words now rnd c (Some w) rooms) = rooms
      \<and> (\<exists>msg. fst (handleStartGame words now rnd c (Some w) rooms) = [GameError msg])
      \<and> (getRoom c rooms = Some room \<and> 2 \<le> length (players room) \<longrightarrow>
           fst (handleStartGame words now rnd c (Some w) rooms) =
             [GameError ''Invalid word. Please choose a valid 5-letter word.''])) \<and>
   (trim w = [] \<longrightarrow>
      handleStartGame words now rnd c (Some w) rooms = handleStartGame words now rnd c None rooms
      \<and> (getRoom c rooms = Some room \<and> status room = Waiting \<and> 2 \<le> length (players room) \<longrightarrow>
           fst (handleStartGame words now rnd c (Some w) rooms) = [GameStarted (getRandomWord rnd)]
           \<and> (\<exists>room'. getRoom c (snd (handleStartGame words now rnd c (Some w) rooms)) = Some room'
                 \<and> status room' = Playing \<and> solutionWord room' = getRandomWord rnd)))"
proof (intro conjI impI)
  assume a: "trim w \<noteq> [] \<and> \<not> isValidWord words (toUpperCase (trim w))"
  then have "w \<noteq> []" by (auto simp: trim_def)
  with a have g: "custom_given (Some w)" by (simp add: custom_given_def)
  from a g show "snd (handleStartGame words now rnd c (Some w) rooms) = rooms"
    by (auto simp: handleStartGame_def split: option.splits)
  from a g show "\<exists>msg. fst (handleStartGame words now rnd c (Some w) rooms) = [GameError msg]"
    by (auto simp: handleStartGame_def split: option.splits)
  show "fst (handleStartGame words now rnd c (Some w) rooms) =
          [GameError ''Invalid word. Please choose a valid 5-letter word.'']"
    if "getRoom c rooms = Some room \<and> 2 \<le> length (players room)"
    using that a g by (auto simp: handleStartGame_def getRoom_def)
next
  assume b: "trim w = []"
  then have n: "\<not> custom_given (Some w)" "\<not> custom_given None"
    by (simp_all add: custom_given_def)
  then have s: "startGame now rnd c (Some w) rooms = startGame now rnd c None rooms"
    by (simp add: startGame_def)
  from n s show e: "handleStartGame words now rnd c (Some w) rooms =
      handleStartGame words now rnd c None rooms"
    by (simp add: handleStartGame_def split: option.splits)
  assume r: "getRoom c rooms = Some room \<and> status room = Waiting \<and> 2 \<le> length (players room)"
  define room' where "room' = room\<lparr>solutionWord := getRandomWord rnd,
      players := map reset_player (players room), status := Playing,
      gameStartTime := Some now, roundNumber := 1, lastActivity := now\<rparr>"
  have st: "startGame now rnd c (Some w) rooms = (Inr room', AList.update c room' rooms)"
    using r n by (simp add: startGame_def getRoom_def room'_def Let_def)
  have h: "handleStartGame words now rnd c (Some w) rooms =
      ([GameStarted (getRandomWord rnd)], AList.update c room' rooms)"
    using r n by (cases "mode room") (simp_all add: handleStartGame_def getRoom_def st room'_def)
  from h show "fst (handleStartGame words now rnd c (Some w) rooms) =
      [GameStarted (getRandomWord rnd)]"
    by simp
  have "getRoom c (snd (handleStartGame words now rnd c (Some w) rooms)) = Some room'"
    by (simp add: h getRoom_def map_of_update_same)
  moreover have "status room' = Playing" "solutionWord room' = getRandomWord rnd"
    by (simp_all add: room'_def)
  ultimately
  show "\<exists>room'. getRoom c (snd (handleStartGame words now rnd c (Some w) rooms)) = Some room'
      \<and> status room' = Playing \<and> solutionWord room' = getRandomWord rnd"
    by blast
qed

text \<open>The word \<open>zebra\<close> with a blank in front is not in the word list and is refused; a word
  of a tab, a space and a no-break space is blank and starts the game with the drawn word.\<close>

theorem handleStartGame_invalid_custom_word_witness:
  "trim '' zebra'' \<noteq> []
   \<and> \<not> isValidWord fallbackWords (toUpperCase (trim '' zebra''))
   \<and> handleStartGame fallbackWords 5 1 ''ABC123'' (Some '' zebra'') lobby_duel
       = ([GameError ''Invalid word. Please choose a valid 5-letter word.''], lobby_duel)
   \<and> trim [CHR 0x09, CHR '' '', CHR 0xA0] = []
   \<and> handleStartGame fallbackWords 5 1 ''ABC123'' (Some [CHR 0x09, CHR '' '', CHR 0xA0]) lobby_duel
       = handleStartGame fallbackWords 5 1 ''ABC123'' None lobby_duel
   \<and> fst (handleStartGame fallbackWords 5 1 ''ABC123'' (Some [CHR 0x09, CHR '' '', CHR 0xA0])
          lobby_duel)
       = [GameStarted ''WORLD'']
   \<and> room_status ''ABC123''
        (snd (handleStartGame fallbackWords 5 1 ''ABC123'' (Some [CHR 0x09, CHR '' '', CHR 0xA0])
           lobby_duel))
       = Some Playing"
proof -
  let ?r = "room_of ''ABC123'' lobby_duel"
  let ?b = "[CHR 0x09, CHR '' '', CHR 0xA0]"
  have 1: "trim '' zebra'' \<noteq> [] \<and> \<not> isValidWord fallbackWords (toUpperCase (trim '' zebra''))"
    by code_simp
  have 2: "getRoom ''ABC123'' lobby_duel = Some ?r \<and> 2 \<le> length (players ?r)"
    by code_simp
  have 3: "trim ?b = []"
    by code_simp
  have 4: "getRoom ''ABC123'' lobby_duel = Some ?r \<and> status ?r = Waiting
      \<and> 2 \<le> length (players ?r)"
    by code_simp
  have 5: "getRandomWord 1 = ''WORLD''"
    by code_simp
  note t = handleStartGame_invalid_custom_word[where words = fallbackWords and now = 5
      and rnd = 1 and c = "''ABC123''" and rooms = lobby_duel and room = ?r]
  from 1 2 t[where w = "'' zebra''"]
  have a: "handleStartGame fallbackWords 5 1 ''ABC123'' (Some '' zebra'') lobby_duel
       = ([GameError ''Invalid word. Please choose a valid 5-letter word.''], lobby_duel)"
    by (metis prod.collapse)
  from 3 t[where w = ?b]
  have b: "handleStartGame fallbackWords 5 1 ''ABC123'' (Some ?b) lobby_duel
       = handleStartGame fallbackWords 5 1 ''ABC123'' None lobby_duel"
    by blast
  from 3 4 t[where w = ?b]
  have "fst (handleStartGame fallbackWords 5 1 ''ABC123'' (Some ?b) lobby_duel)
      = [GameStarted (getRandomWord 1)]"
    and "\<exists>room'. getRoom ''ABC123''
          (snd (handleStartGame fallbackWords 5 1 ''ABC123'' (Some ?b) lobby_duel)) = Some room'
        \<and> status room' = Playing \<and> solutionWord room' = getRandomWord 1"
    by blast+
  with 5 have c: "fst (handleStartGame fallbackWords 5 1 ''ABC123'' (Some ?b) lobby_duel)
      = [GameStarted ''WORLD'']"
    "room_status ''ABC123''
       (snd (handleStartGame fallbackWords 5 1 ''ABC123'' (Some ?b) lobby_duel)) = Some Playing"
    by (auto simp: room_status_def)
  from 1 3 a b c show ?thesis by blast
qed

text \<open>
  C6. In a duel, when a player who is still in the game submits a well-formed guess that is
  not the solution and brings the player's guess list to the maximum of six, the player is
  eliminated, and: if the other player also has six guesses or more, the room is finished
  and a game-over with no winner (a draw) is sent; if the other player has fewer, or there
  is no other player, the status of the room stays as it was (playing) and no game-over is
  sent.
\<close>

theorem duel_exhaustion:
  assumes "getRoom c rooms = Some room" and "mode room = Duel"
    and "findIndex (\<lambda>p. username p = u) (players room) = Some i"
    and "\<not> eliminated (players room ! i)"
    and "length guess = WORD_LENGTH" and "all_upper guess"
    and "guess \<noteq> solutionWord room"
    and "MAX_GUESSES \<le> length (guesses (players room ! i)) + 1"
  shows "\<exists>room'. getRoom c (snd (handleSubmitGuess now c u guess n rooms)) = Some room'
      \<and> eliminated (players room' ! i)
      \<and> (case find (\<lambda>p. username p \<noteq> u) (players room) of
            None \<Rightarrow>
              status room' = status room
              \<and> fst (handleSubmitGuess now c u guess n rooms) =
                  [GuessSubmitted u guess (length (guesses (players room ! i)) + 1) False True]
          | Some otherPlayer \<Rightarrow>
              if MAX_GUESSES \<le> length (guesses otherPlayer) then
                status room' = Finished
                \<and> fst (handleSubmitGuess now c u guess n rooms) =
                    [GameOver None (solutionWord room),
                     GuessSubmitted u guess (length (guesses (players room ! i)) + 1) False True]
              else
                status room' = status room
                \<and> fst (handleSubmitGuess now c u guess n rooms) =
                    [GuessSubmitted u guess (length (guesses (players room ! i)) + 1) False True])"
proof -
  from findIndex_Some[OF assms(3)] have len: "i < length (players room)"
    and ui: "username (players room ! i) = u" by simp_all
  define p' where "p' = (players room ! i)\<lparr>
      guesses := guesses (players room ! i) @ [\<lparr>word = guess, attempt = n, timestamp = Some now\<rparr>],
      eliminated := True\<rparr>"
  define room1 where "room1 = room\<lparr>players := (players room)[i := p']\<rparr>"
  have r: "map_of rooms c = Some room" using assms(1) by (simp add: getRoom_def)
  have h: "handleSubmitGuess now c u guess n rooms =
      (fst (resolve_guess u Eliminated room1) @
         [GuessSubmitted u guess (Suc (length (guesses (players room ! i)))) False True],
       AList.update c (snd (resolve_guess u Eliminated room1)) rooms)"
    using assms(7,8)
    by (simp add: handleSubmitGuess_wellformed[OF r assms(3,4,5,6)] Let_def room1_def p'_def)
  have f: "find (\<lambda>p. username p \<noteq> u) (players room1) = find (\<lambda>p. username p \<noteq> u) (players room)"
    using len ui by (simp add: room1_def find_update_irrelevant p'_def)
  let ?room' = "snd (resolve_guess u Eliminated room1)"
  have 1: "getRoom c (snd (handleSubmitGuess now c u guess n rooms)) = Some ?room'"
    by (simp add: h getRoom_def map_of_update_same)
  have 2: "eliminated (players ?room' ! i)"
    using len by (simp add: resolve_guess_players room1_def p'_def)
  have 3: "(case find (\<lambda>p. username p \<noteq> u) (players room) of
            None \<Rightarrow>
              status ?room' = status room
              \<and> fst (handleSubmitGuess now c u guess n rooms) =
                  [GuessSubmitted u guess (length (guesses (players room ! i)) + 1) False True]
          | Some otherPlayer \<Rightarrow>
              if MAX_GUESSES \<le> length (guesses otherPlayer) then
                status ?room' = Finished
                \<and> fst (handleSubmitGuess now c u guess n rooms) =
                    [GameOver None (solutionWord room),
                     GuessSubmitted u guess (length (guesses (players room ! i)) + 1) False True]
              else
                status ?room' = status room
                \<and> fst (handleSubmitGuess now c u guess n rooms) =
                    [GuessSubmitted u guess (length (guesses (players room ! i)) + 1) False True])"
  proof (cases "find (\<lambda>p. username p \<noteq> u) (players room)")
    case None
    then show ?thesis
      using f assms(2) by (simp add: h resolve_guess_def) (simp add: room1_def)
  next
    case (Some otherPlayer)
    then show ?thesis
      using f assms(2) by (simp add: h resolve_guess_def Let_def) (simp add: room1_def)
  qed
  from 1 2 3 show ?thesis by blast
qed

text \<open>Alice's sixth wrong guess, once after bob has used up his six, once while bob has
  not guessed yet.\<close>

theorem duel_exhaustion_witness:
  "fst (handleSubmitGuess 10 ''ABC123'' ''alice'' ''WORLD'' 6 duel_bob_out)
     = [GameOver None ''HELLO'', GuessSubmitted ''alice'' ''WORLD'' 6 False True]
   \<and> room_status ''ABC123'' (snd (handleSubmitGuess 10 ''ABC123'' ''alice'' ''WORLD'' 6 duel_bob_out))
       = Some Finished
   \<and> fst (handleSubmitGuess 10 ''ABC123'' ''alice'' ''WORLD'' 6 duel_alice_five)
       = [GuessSubmitted ''alice'' ''WORLD'' 6 False True]
   \<and> room_status ''ABC123''
        (snd (handleSubmitGuess 10 ''ABC123'' ''alice'' ''WORLD'' 6 duel_alice_five))
       = Some Playing"
proof -
  let ?r = "room_of ''ABC123'' duel_bob_out"
  let ?q = "room_of ''ABC123'' duel_alice_five"
  have g: "length ''WORLD'' = WORD_LENGTH" "all_upper ''WORLD''"
    by code_simp+
  have 1: "getRoom ''ABC123'' duel_bob_out = Some ?r" "mode ?r = Duel"
    "findIndex (\<lambda>p. username p = ''alice'') (players ?r) = Some 0"
    "\<not> eliminated (players ?r ! 0)" "''WORLD'' \<noteq> solutionWord ?r"
    "MAX_GUESSES \<le> length (guesses (players ?r ! 0)) + 1"
    by code_simp+
  have 2: "find (\<lambda>p. username p \<noteq> ''alice'') (players ?r) = Some (players ?r ! 1)"
    "MAX_GUESSES \<le> length (guesses (players ?r ! 1))"
    "solutionWord ?r = ''HELLO''" "length (guesses (players ?r ! 0)) + 1 = 6"
    by code_simp+
  have 3: "getRoom ''ABC123'' duel_alice_five = Some ?q" "mode ?q = Duel"
    "findIndex (\<lambda>p. username p = ''alice'') (players ?q) = Some 0"
    "\<not> eliminated (players ?q ! 0)" "''WORLD'' \<noteq> solutionWord ?q"
    "MAX_GUESSES \<le> length (guesses (players ?q ! 0)) + 1"
    by code_simp+
  have 4: "find (\<lambda>p. username p \<noteq> ''alice'') (players ?q) = Some (players ?q ! 1)"
    "\<not> MAX_GUESSES \<le> length (guesses (players ?q ! 1))"
    "status ?q = Playing" "length (guesses (players ?q ! 0)) + 1 = 6"
    by code_simp+
  from 2 duel_exhaustion[OF 1(1,2,3,4) g 1(5,6), where now = 10 and n = 6]
  have a: "fst (handleSubmitGuess 10 ''ABC123'' ''alice'' ''WORLD'' 6 duel_bob_out)
       = [GameOver None ''HELLO'', GuessSubmitted ''alice'' ''WORLD'' 6 False True]"
    "room_status ''ABC123'' (snd (handleSubmitGuess 10 ''ABC123'' ''alice'' ''WORLD'' 6 duel_bob_out))
       = Some Finished"
    by (auto simp: room_status_def)
  from 4 duel_exhaustion[OF 3(1,2,3,4) g 3(5,6), where now = 10 and n = 6]
  have b: "fst (handleSubmitGuess 10 ''ABC123'' ''alice'' ''WORLD'' 6 duel_alice_five)
       = [GuessSubmitted ''alice'' ''WORLD'' 6 False True]"
    "room_status ''ABC123''
        (snd (handleSubmitGuess 10 ''ABC123'' ''alice'' ''WORLD'' 6 duel_alice_five))
       = Some Playing"
    by (auto simp: room_status_def)
  from a b show ?thesis by blast
qed

text \<open>
  C2 as stated does not hold in its second half: a finished room still takes guesses.
  After alice has won the duel the room is finished; bob, who is not eliminated, then
  submits a guess, the guess is recorded in his list, a guess-submitted event is sent and
  the store has changed.
\<close>

theorem finished_room_guess_counterexample:
  "room_status ''ABC123'' duel_won = Some Finished
   \<and> player_flags ''ABC123'' duel_won = [(''alice'', 1, True, False), (''bob'', 0, False, False)]
   \<and> fst (handleSubmitGuess 11 ''ABC123'' ''bob'' ''WORLD'' 1 duel_won)
       = [GuessSubmitted ''bob'' ''WORLD'' 1 False False]
   \<and> player_flags ''ABC123'' (snd (handleSubmitGuess 11 ''ABC123'' ''bob'' ''WORLD'' 1 duel_won))
       = [(''alice'', 1, True, False), (''bob'', 1, False, False)]
   \<and> snd (handleSubmitGuess 11 ''ABC123'' ''bob'' ''WORLD'' 1 duel_won) \<noteq> duel_won
   \<and> \<not> isl (fst (submitGuess 11 ''ABC123'' ''bob'' ''WORLD'' 1 duel_won))"
  by code_simp

text \<open>
  C2, amended. In a duel, a well-formed guess equal to the solution, by a player who is in
  the room and not eliminated, sets the status of the room to finished at once and sends a
  game-over with that player as winner. A finished room stays finished under every later
  guess, whoever sends it and whatever it is: no guess changes the status back. The handler
  does not look at the status, though: in a finished room a well-formed guess of a player
  who is not eliminated is still appended to that player's guesses, and the handler ends by
  sending the guess-submitted event for it.
\<close>

theorem duel_win_finishes:
  "(getRoom c rooms = Some room \<and> mode room = Duel
        \<and> findIndex (\<lambda>p. username p = u) (players room) = Some i
        \<and> \<not> eliminated (players room ! i)
        \<and> length guess = WORD_LENGTH \<and> all_upper guess \<and> guess = solutionWord room \<longrightarrow>
      (\<exists>room'. getRoom c (snd (handleSubmitGuess now c u guess n rooms)) = Some room'
         \<and> status room' = Finished
         \<and> won (players room' ! i)
         \<and> fst (handleSubmitGuess now c u guess n rooms) =
             [GameOver (Some u) (solutionWord room),
              GuessSubmitted u guess (length (guesses (players room ! i)) + 1) True False])) \<and>
   (getRoom c rooms = Some room \<and> status room = Finished \<longrightarrow>
      (\<exists>room'. getRoom c (snd (handleSubmitGuess now c u guess n rooms)) = Some room'
         \<and> status room' = Finished)) \<and>
   (getRoom c rooms = Some room \<and> status room = Finished
        \<and> findIndex (\<lambda>p. username p = u) (players room) = Some i
        \<and> \<not> eliminated (players room ! i)
        \<and> length guess = WORD_LENGTH \<and> all_upper guess \<longrightarrow>
      (\<exists>room' events. getRoom c (snd (handleSubmitGuess now c u guess n rooms)) = Some room'
         \<and> guesses (players room' ! i) =
             guesses (players room ! i) @ [\<lparr>word = guess, attempt = n, timestamp = Some now\<rparr>]
         \<and> fst (handleSubmitGuess now c u guess n rooms) =
             events @
             [GuessSubmitted u guess (length (guesses (players room ! i)) + 1)
                (guess = solutionWord room)
                (guess \<noteq> solutionWord room
                   \<and> MAX_GUESSES \<le> length (guesses (players room ! i)) + 1)]))"
proof (intro conjI impI)
  assume a: "getRoom c rooms = Some room \<and> mode room = Duel
        \<and> findIndex (\<lambda>p. username p = u) (players room) = Some i
        \<and> \<not> eliminated (players room ! i)
        \<and> length guess = WORD_LENGTH \<and> all_upper guess \<and> guess = solutionWord room"
  then have r: "map_of rooms c = Some room"
    and i: "findIndex (\<lambda>p. username p = u) (players room) = Some i"
    and e: "\<not> eliminated (players room ! i)"
    and g: "length guess = WORD_LENGTH" "all_upper guess"
    by (auto simp: getRoom_def)
  from a have w: "guess = solutionWord room" and d: "mode room = Duel" by simp_all
  from findIndex_Some[OF i] have len: "i < length (players room)" by simp
  define room1 where "room1 = room\<lparr>players := (players room)[i := (players room ! i)\<lparr>
      guesses := guesses (players room ! i) @ [\<lparr>word = guess, attempt = n, timestamp = Some now\<rparr>],
      won := True, score := n, eliminated := False\<rparr>]\<rparr>"
  have h: "handleSubmitGuess now c u guess n rooms =
      (fst (resolve_guess u Won room1) @
         [GuessSubmitted u guess (Suc (length (guesses (players room ! i)))) True False],
       AList.update c (snd (resolve_guess u Won room1)) rooms)"
    unfolding handleSubmitGuess_wellformed[OF r i e g] Let_def room1_def using w by simp
  have rg: "resolve_guess u Won room1 =
      ([GameOver (Some u) (solutionWord room)], room1\<lparr>status := Finished\<rparr>)"
    using d by (simp add: resolve_guess_def Let_def room1_def)
  have "getRoom c (snd (handleSubmitGuess now c u guess n rooms)) =
          Some (room1\<lparr>status := Finished\<rparr>)"
    by (simp add: h rg getRoom_def map_of_update_same)
  moreover have "status (room1\<lparr>status := Finished\<rparr>) = Finished" by simp
  moreover have "won (players (room1\<lparr>status := Finished\<rparr>) ! i)"
    using len by (simp add: room1_def)
  moreover have "fst (handleSubmitGuess now c u guess n rooms) =
             [GameOver (Some u) (solutionWord room),
              GuessSubmitted u guess (length (guesses (players room ! i)) + 1) True False]"
    by (simp add: h rg)
  ultimately
  show "\<exists>room'. getRoom c (snd (handleSubmitGuess now c u guess n rooms)) = Some room'
         \<and> status room' = Finished
         \<and> won (players room' ! i)
         \<and> fst (handleSubmitGuess now c u guess n rooms) =
             [GameOver (Some u) (solutionWord room),
              GuessSubmitted u guess (length (guesses (players room ! i)) + 1) True False]"
    by blast
next
  assume a: "getRoom c rooms = Some room \<and> status room = Finished"
  then have r: "map_of rooms c = Some room" by (simp add: getRoom_def)
  show "\<exists>room'. getRoom c (snd (handleSubmitGuess now c u guess n rooms)) = Some room'
         \<and> status room' = Finished"
  proof (cases "snd (handleSubmitGuess now c u guess n rooms) = rooms")
    case True
    with a show ?thesis by simp
  next
    case False
    with r obtain i where i: "findIndex (\<lambda>p. username p = u) (players room) = Some i"
      and e: "\<not> eliminated (players room ! i)"
      and ok: "\<not> isl (fst (submitGuess now c u guess n rooms))"
      by (auto simp: handleSubmitGuess_def find_findIndex dest: submitGuess_Inl_store
          split: option.splits if_splits prod.splits sum.splits)
    from ok obtain result player' room' rooms' where
      "submitGuess now c u guess n rooms = (Inr (result, player', room'), rooms')"
      by (cases "submitGuess now c u guess n rooms"; cases "fst (submitGuess now c u guess n rooms)")
         auto
    then have g: "length guess = WORD_LENGTH" "all_upper guess"
      by (auto elim: submitGuess_InrE)
    define res where "res = (if guess = solutionWord room then Won
        else if MAX_GUESSES \<le> length (guesses (players room ! i)) + 1 then Eliminated
        else Continue)"
    define room1 where "room1 = room\<lparr>players := (players room)[i := (players room ! i)\<lparr>
             guesses := guesses (players room ! i) @
                [\<lparr>word = guess, attempt = n, timestamp = Some now\<rparr>],
             won := (if res = Won then True else won (players room ! i)),
             score := (if res = Won then n else score (players room ! i)),
             eliminated := (res = Eliminated)\<rparr>]\<rparr>"
    have h: "snd (handleSubmitGuess now c u guess n rooms) =
               AList.update c (snd (resolve_guess u res room1)) rooms"
      unfolding handleSubmitGuess_wellformed[OF r i e g] res_def room1_def Let_def by simp
    have "status room1 = Finished" using a by (simp add: room1_def)
    with resolve_guess_status[of u res room1]
    have "status (snd (resolve_guess u res room1)) = Finished" by auto
    then show ?thesis by (simp add: h getRoom_def map_of_update_same)
  qed
next
  assume a: "getRoom c rooms = Some room \<and> status room = Finished
        \<and> findIndex (\<lambda>p. username p = u) (players room) = Some i
        \<and> \<not> eliminated (players room ! i)
        \<and> length guess = WORD_LENGTH \<and> all_upper guess"
  then have r: "map_of rooms c = Some room"
    and i: "findIndex (\<lambda>p. username p = u) (players room) = Some i"
    and e: "\<not> eliminated (players room ! i)"
    and g: "length guess = WORD_LENGTH" "all_upper guess"
    by (auto simp: getRoom_def)
  from findIndex_Some[OF i] have len: "i < length (players room)" by simp
  define res where "res = (if guess = solutionWord room then Won
      else if MAX_GUESSES \<le> length (guesses (players room ! i)) + 1 then Eliminated
      else Continue)"
  define room1 where "room1 = room\<lparr>players := (players room)[i := (players room ! i)\<lparr>
           guesses := guesses (players room ! i) @
              [\<lparr>word = guess, attempt = n, timestamp = Some now\<rparr>],
           won := (if res = Won then True else won (players room ! i)),
           score := (if res = Won then n else score (players room ! i)),
           eliminated := (res = Eliminated)\<rparr>]\<rparr>"
  have h: "handleSubmitGuess now c u guess n rooms =
      (fst (resolve_guess u res room1) @
         [GuessSubmitted u guess (Suc (length (guesses (players room ! i))))
            (res = Won) (res = Eliminated)],
       AList.update c (snd (resolve_guess u res room1)) rooms)"
    unfolding handleSubmitGuess_wellformed[OF r i e g] res_def room1_def Let_def by simp
  have f: "(res = Won) = (guess = solutionWord room)"
    "(res = Eliminated) =
       (guess \<noteq> solutionWord room \<and> MAX_GUESSES \<le> length (guesses (players room ! i)) + 1)"
    by (simp_all add: res_def)
  have 1: "getRoom c (snd (handleSubmitGuess now c u guess n rooms)) =
      Some (snd (resolve_guess u res room1))"
    by (simp add: h getRoom_def map_of_update_same)
  have 2: "guesses (players (snd (resolve_guess u res room1)) ! i) =
      guesses (players room ! i) @ [\<lparr>word = guess, attempt = n, timestamp = Some now\<rparr>]"
    unfolding resolve_guess_players using len by (simp add: room1_def)
  have 3: "fst (handleSubmitGuess now c u guess n rooms) =
      fst (resolve_guess u res room1) @
      [GuessSubmitted u guess (length (guesses (players room ! i)) + 1)
         (guess = solutionWord room)
         (guess \<noteq> solutionWord room
            \<and> MAX_GUESSES \<le> length (guesses (players room ! i)) + 1)]"
    by (simp add: h f)
  from 1 2 3
  show "\<exists>room' events. getRoom c (snd (handleSubmitGuess now c u guess n rooms)) = Some room'
         \<and> guesses (players room' ! i) =
             guesses (players room ! i) @ [\<lparr>word = guess, attempt = n, timestamp = Some now\<rparr>]
         \<and> fst (handleSubmitGuess now c u guess n rooms) =
             events @
             [GuessSubmitted u guess (length (guesses (players room ! i)) + 1)
                (guess = solutionWord room)
                (guess \<noteq> solutionWord room
                   \<and> MAX_GUESSES \<le> length (guesses (players room ! i)) + 1)]"
    by blast
qed

theorem duel_win_finishes_witness:
  "fst (handleSubmitGuess 10 ''ABC123'' ''alice'' ''HELLO'' 3 game_duel)
     = [GameOver (Some ''alice'') ''HELLO'', GuessSubmitted ''alice'' ''HELLO'' 1 True False]
   \<and> room_status ''ABC123'' (snd (handleSubmitGuess 10 ''ABC123'' ''alice'' ''HELLO'' 3 game_duel))
       = Some Finished
   \<and> room_status ''ABC123'' (snd (handleSubmitGuess 11 ''ABC123'' ''bob'' ''WORLD'' 1 duel_won))
       = Some Finished
   \<and> map_option (\<lambda>r. map word (guesses (players r ! 1)))
        (getRoom ''ABC123'' (snd (handleSubmitGuess 11 ''ABC123'' ''bob'' ''WORLD'' 1 duel_won)))
       = Some [''WORLD'']
   \<and> last (fst (handleSubmitGuess 11 ''ABC123'' ''bob'' ''WORLD'' 1 duel_won))
       = GuessSubmitted ''bob'' ''WORLD'' 1 False False"
proof -
  let ?r = "room_of ''ABC123'' game_duel"
  let ?f = "room_of ''ABC123'' duel_won"
  have 1: "getRoom ''ABC123'' game_duel = Some ?r \<and> mode ?r = Duel
        \<and> findIndex (\<lambda>p. username p = ''alice'') (players ?r) = Some 0
        \<and> \<not> eliminated (players ?r ! 0)
        \<and> length ''HELLO'' = WORD_LENGTH \<and> all_upper ''HELLO'' \<and> ''HELLO'' = solutionWord ?r"
    by code_simp
  have 2: "solutionWord ?r = ''HELLO''" "length (guesses (players ?r ! 0)) + 1 = 1"
    by code_simp+
  have 3: "getRoom ''ABC123'' duel_won = Some ?f \<and> status ?f = Finished"
    by code_simp
  have 4: "getRoom ''ABC123'' duel_won = Some ?f \<and> status ?f = Finished
        \<and> findIndex (\<lambda>p. username p = ''bob'') (players ?f) = Some 1
        \<and> \<not> eliminated (players ?f ! 1)
        \<and> length ''WORLD'' = WORD_LENGTH \<and> all_upper ''WORLD''"
    by code_simp
  have 5: "guesses (players ?f ! 1) = []" "''WORLD'' \<noteq> solutionWord ?f"
    "\<not> MAX_GUESSES \<le> length (guesses (players ?f ! 1)) + 1"
    by code_simp+
  from 1 duel_win_finishes[where c = "''ABC123''" and rooms = game_duel and room = ?r
      and u = "''alice''" and i = 0 and guess = "''HELLO''" and now = 10 and n = 3]
  obtain room' where
    "getRoom ''ABC123'' (snd (handleSubmitGuess 10 ''ABC123'' ''alice'' ''HELLO'' 3 game_duel))
       = Some room'"
    "status room' = Finished"
    "fst (handleSubmitGuess 10 ''ABC123'' ''alice'' ''HELLO'' 3 game_duel) =
       [GameOver (Some ''alice'') (solutionWord ?r),
        GuessSubmitted ''alice'' ''HELLO'' (length (guesses (players ?r ! 0)) + 1) True False]"
    by blast
  with 2 have a: "fst (handleSubmitGuess 10 ''ABC123'' ''alice'' ''HELLO'' 3 game_duel)
     = [GameOver (Some ''alice'') ''HELLO'', GuessSubmitted ''alice'' ''HELLO'' 1 True False]"
    "room_status ''ABC123'' (snd (handleSubmitGuess 10 ''ABC123'' ''alice'' ''HELLO'' 3 game_duel))
       = Some Finished"
    by (simp_all add: room_status_def)
  from 3 duel_win_finishes[where c = "''ABC123''" and rooms = duel_won and room = ?f
      and u = "''bob''" and guess = "''WORLD''" and now = 11 and n = 1]
  have b: "room_status ''ABC123'' (snd (handleSubmitGuess 11 ''ABC123'' ''bob'' ''WORLD'' 1 duel_won))
       = Some Finished"
    by (auto simp: room_status_def)
  from 4 duel_win_finishes[where c = "''ABC123''" and rooms = duel_won and room = ?f
      and u = "''bob''" and i = 1 and guess = "''WORLD''" and now = 11 and n = 1]
  obtain room'' events where
    "getRoom ''ABC123'' (snd (handleSubmitGuess 11 ''ABC123'' ''bob'' ''WORLD'' 1 duel_won))
       = Some room''"
    "guesses (players room'' ! 1) =
       guesses (players ?f ! 1) @ [\<lparr>word = ''WORLD'', attempt = 1, timestamp = Some 11\<rparr>]"
    "fst (handleSubmitGuess 11 ''ABC123'' ''bob'' ''WORLD'' 1 duel_won) =
       events @
       [GuessSubmitted ''bob'' ''WORLD'' (length (guesses (players ?f ! 1)) + 1)
          (''WORLD'' = solutionWord ?f)
          (''WORLD'' \<noteq> solutionWord ?f \<and> MAX_GUESSES \<le> length (guesses (players ?f ! 1)) + 1)]"
    by blast
  with 5 have c: "map_option (\<lambda>r. map word (guesses (players r ! 1)))
        (getRoom ''ABC123'' (snd (handleSubmitGuess 11 ''ABC123'' ''bob'' ''WORLD'' 1 duel_won)))
       = Some [''WORLD'']"
    "last (fst (handleSubmitGuess 11 ''ABC123'' ''bob'' ''WORLD'' 1 duel_won))
       = GuessSubmitted ''bob'' ''WORLD'' 1 False False"
    by simp_all
  from a b c show ?thesis by blast
qed

subsection \<open>Battle royale: a winner who is not retired\<close>

text \<open>In the game handler a winning guess in battle royale sets \<open>won\<close> and \<open>score\<close> and nothing
  else on the player: the room manager does not set \<open>eliminated\<close> on a win and the handler
  does not either, although its comment reads "player is eliminated, others continue" and
  it sends the player-eliminated event. The winner is therefore counted among the active
  players from then on.\<close>

lemma handler_battle_royale_win:
  assumes "getRoom c rooms = Some room" and "mode room = BattleRoyale"
    and "findIndex (\<lambda>p. username p = u) (players room) = Some i"
    and "\<not> eliminated (players room ! i)"
    and "length guess = WORD_LENGTH" and "all_upper guess"
    and "guess = solutionWord room"
  shows "\<exists>room'. getRoom c (snd (handleSubmitGuess now c u guess n rooms)) = Some room'
      \<and> won (players room' ! i) \<and> \<not> eliminated (players room' ! i)
      \<and> players room' ! i \<in> set (filter (\<lambda>p. \<not> eliminated p) (players room'))"
proof -
  from findIndex_Some[OF assms(3)] have len: "i < length (players room)" by simp
  have r: "map_of rooms c = Some room" using assms(1) by (simp add: getRoom_def)
  define room1 where "room1 = room\<lparr>players := (players room)[i := (players room ! i)\<lparr>
      guesses := guesses (players room ! i) @ [\<lparr>word = guess, attempt = n, timestamp = Some now\<rparr>],
      won := True, score := n, eliminated := False\<rparr>]\<rparr>"
  have h: "snd (handleSubmitGuess now c u guess n rooms) =
      AList.update c (snd (resolve_guess u Won room1)) rooms"
    unfolding handleSubmitGuess_wellformed[OF r assms(3,4,5,6)] Let_def room1_def
    using assms(7) by simp
  let ?room' = "snd (resolve_guess u Won room1)"
  have p: "players ?room' = players room1" by (rule resolve_guess_players)
  have 1: "getRoom c (snd (handleSubmitGuess now c u guess n rooms)) = Some ?room'"
    by (simp add: h getRoom_def map_of_update_same)
  have 2: "won (players ?room' ! i)" "\<not> eliminated (players ?room' ! i)"
    using len unfolding p by (simp_all add: room1_def)
  have "i < length (players ?room')"
    using len unfolding p by (simp add: room1_def)
  then have "players ?room' ! i \<in> set (players ?room')"
    by (rule nth_mem)
  with 2 have 3: "players ?room' ! i \<in> set (filter (\<lambda>p. \<not> eliminated p) (players ?room'))"
    by simp
  from 1 2 3 show ?thesis by blast
qed

text \<open>
  C1. In battle royale a player whose guess is the solution is to be marked eliminated, and
  the active players are to be counted without that player: the game is over when exactly
  one other player is left, and goes on otherwise. The game handler falls short of this.
  With alice, bob and carol playing, alice's winning guess on attempt 3 leaves her not
  eliminated, and the player-eliminated event counts three remaining players instead of
  two. When bob then uses up his six attempts, carol is the only player left who has
  neither won nor lost, yet the handler still counts two active players (alice and carol),
  sends player-eliminated and leaves the room playing: no game-over with winner carol.
\<close>

theorem battle_royale_winner_not_eliminated:
  "fst (handleSubmitGuess 10 ''XYZ789'' ''alice'' ''HELLO'' 3 game_royale)
     = [PlayerEliminated ''alice'' 3, GuessSubmitted ''alice'' ''HELLO'' 1 True False]
   \<and> player_flags ''XYZ789'' (snd (handleSubmitGuess 10 ''XYZ789'' ''alice'' ''HELLO'' 3 game_royale))
       = [(''alice'', 1, True, False), (''bob'', 0, False, False), (''carol'', 0, False, False)]
   \<and> fst (handleSubmitGuess 10 ''XYZ789'' ''bob'' ''WORLD'' 6
          (play ''XYZ789'' ((''alice'', ''HELLO'', 3) # five_wrong ''bob'') game_royale))
       = [PlayerEliminated ''bob'' 2, GuessSubmitted ''bob'' ''WORLD'' 6 False True]
   \<and> player_flags ''XYZ789''
        (play ''XYZ789'' ((''alice'', ''HELLO'', 3) # five_wrong ''bob'' @ [(''bob'', ''WORLD'', 6)])
           game_royale)
       = [(''alice'', 1, True, False), (''bob'', 6, False, True), (''carol'', 0, False, False)]
   \<and> room_status ''XYZ789''
        (play ''XYZ789'' ((''alice'', ''HELLO'', 3) # five_wrong ''bob'' @ [(''bob'', ''WORLD'', 6)])
           game_royale)
       = Some Playing"
  by code_simp

text \<open>The single-file server does what the handler's comment says: there a winning guess
  in battle royale leaves the player both \<open>won\<close> and \<open>eliminated\<close>.\<close>

lemma legacy_last_standing_keeps:
  assumes "i < length (players room)" and "eliminated (players room ! i)"
  shows "players (snd (legacy_last_standing u room)) ! i = players room ! i"
proof (cases "findIndex (\<lambda>p. \<not> eliminated p) (players room)")
  case None
  then show ?thesis by (simp add: legacy_last_standing_def Let_def)
next
  case (Some j)
  from findIndex_Some[OF Some] assms(2) have "j \<noteq> i" by auto
  with Some show ?thesis by (simp add: legacy_last_standing_def Let_def)
qed

lemma legacy_battle_royale_win:
  assumes "getRoom c rooms = Some room" and "mode room = BattleRoyale"
    and "findIndex (\<lambda>p. username p = u) (players room) = Some i"
    and "\<not> eliminated (players room ! i)"
    and "length guess = 5" and "all_upper guess"
    and "guess = solutionWord room"
  shows "\<exists>room'. getRoom c (snd (legacy_submit_guess c u guess n rooms)) = Some room'
      \<and> won (players room' ! i) \<and> eliminated (players room' ! i)"
proof -
  from findIndex_Some[OF assms(3)] have len: "i < length (players room)" by simp
  have r: "map_of rooms c = Some room" using assms(1) by (simp add: getRoom_def)
  define room1 where "room1 = room\<lparr>players := (players room)[i := (players room ! i)\<lparr>
      guesses := guesses (players room ! i) @ [\<lparr>word = guess, attempt = n, timestamp = None\<rparr>],
      won := True, score := n, eliminated := True\<rparr>]\<rparr>"
  have h: "snd (legacy_submit_guess c u guess n rooms) =
      AList.update c (snd (legacy_last_standing u room1)) rooms"
    using r assms(2,3,4,5,6,7)
    by (simp add: legacy_submit_guess_def Let_def split_beta room1_def)
  have l: "i < length (players room1)" "eliminated (players room1 ! i)" "won (players room1 ! i)"
    using len by (simp_all add: room1_def)
  from legacy_last_standing_keeps[OF l(1,2)] l
  have "won (players (snd (legacy_last_standing u room1)) ! i)"
    "eliminated (players (snd (legacy_last_standing u room1)) ! i)"
    by simp_all
  moreover have "getRoom c (snd (legacy_submit_guess c u guess n rooms)) =
      Some (snd (legacy_last_standing u room1))"
    by (simp add: h getRoom_def map_of_update_same)
  ultimately show ?thesis by blast
qed

text \<open>On the same moves as above, in the single-file server, alice is eliminated by her
  win, two players remain, and bob's sixth wrong guess ends the game with carol as winner.\<close>

lemma legacy_battle_royale_winner_eliminated:
  "fst (legacy_submit_guess ''XYZ789'' ''alice'' ''HELLO'' 3 game_royale)
     = [PlayerEliminated ''alice'' 2, GuessSubmitted ''alice'' ''HELLO'' 1 False False]
   \<and> player_flags ''XYZ789'' (snd (legacy_submit_guess ''XYZ789'' ''alice'' ''HELLO'' 3 game_royale))
       = [(''alice'', 1, True, True), (''bob'', 0, False, False), (''carol'', 0, False, False)]
   \<and> fst (legacy_submit_guess ''XYZ789'' ''bob'' ''WORLD'' 6
          (legacy_play ''XYZ789'' ((''alice'', ''HELLO'', 3) # five_wrong ''bob'') game_royale))
       = [GameOver (Some ''carol'') ''HELLO'', GuessSubmitted ''bob'' ''WORLD'' 6 False False]
   \<and> player_flags ''XYZ789''
        (legacy_play ''XYZ789''
           ((''alice'', ''HELLO'', 3) # five_wrong ''bob'' @ [(''bob'', ''WORLD'', 6)]) game_royale)
       = [(''alice'', 1, True, True), (''bob'', 6, False, True), (''carol'', 0, True, False)]
   \<and> room_status ''XYZ789''
        (legacy_play ''XYZ789''
           ((''alice'', ''HELLO'', 3) # five_wrong ''bob'' @ [(''bob'', ''WORLD'', 6)]) game_royale)
       = Some Finished"
  by code_simp

end
